theory Spec2Isabelle
  imports Complex_Main "HOL-Library.Sublist" "HOL-Library.Monad_Syntax"
begin

section \<open>JavaScript values and errors\<close>

text \<open>
  The values that \<^verbatim>\<open>JSON5.parse\<close> can return.  A finite JavaScript number is a
  rational; JSON5 also has the literals \<^verbatim>\<open>Infinity\<close>, \<^verbatim>\<open>-Infinity\<close> and
  \<^verbatim>\<open>NaN\<close>.  An object is kept as the list of its own properties; a property is read with
  \<open>map_of\<close>.
\<close>

datatype jsnum = Finite rat | PosInfinity | NegInfinity | NaN

datatype json =
    JNull
  | JBool bool
  | JNum jsnum
  | JStr string
  | JArr "json list"
  | JObj "(string \<times> json) list"

text \<open>What a \<^verbatim>\<open>try\<close> block of the sources can catch.\<close>

datatype js_error = ENOENT | EACCES | EISDIR | SyntaxError

text \<open>The \<^verbatim>\<open>typeof\<close> operator on parsed values: arrays and \<^verbatim>\<open>null\<close> are objects.\<close>

fun js_typeof :: "json \<Rightarrow> string" where
  "js_typeof JNull = ''object''"
| "js_typeof (JBool b) = ''boolean''"
| "js_typeof (JNum n) = ''number''"
| "js_typeof (JStr s) = ''string''"
| "js_typeof (JArr xs) = ''object''"
| "js_typeof (JObj kvs) = ''object''"

text \<open>Truthiness, as \<^verbatim>\<open>Boolean(v)\<close> and the conditions of \<^verbatim>\<open>if\<close> and \<^verbatim>\<open>&&\<close> read it.\<close>

fun js_truthy :: "json \<Rightarrow> bool" where
  "js_truthy JNull = False"
| "js_truthy (JBool b) = b"
| "js_truthy (JNum (Finite r)) = (r \<noteq> 0)"
| "js_truthy (JNum NaN) = False"
| "js_truthy (JNum PosInfinity) = True"
| "js_truthy (JNum NegInfinity) = True"
| "js_truthy (JStr s) = (s \<noteq> [])"
| "js_truthy (JArr xs) = True"
| "js_truthy (JObj kvs) = True"

section \<open>Session store and session key (src/config/sessions.ts)\<close>

datatype SessionScope = PerSender | Global

text \<open>
  Modelled from the spec: the type \<^verbatim>\<open>MsgContext\<close> is declared in
  \<^verbatim>\<open>auto-reply/templating.ts\<close>, which is not among the sources.  The spec gives it the
  fields below; \<open>Body\<close> is never absent, every other field is optional.
\<close>

record MsgContext =
  Body :: string
  From :: "string option"
  To :: "string option"
  MediaPath :: "string option"
  MediaUrl :: "string option"
  MediaType :: "string option"
  MessageId :: "string option"

text \<open>
  \<^verbatim>\<open>loadSessionStore\<close>: \<^verbatim>\<open>fs.readFileSync\<close> and \<^verbatim>\<open>JSON5.parse\<close> are parameters that
  either throw or return.  The whole body is inside \<^verbatim>\<open>try\<close>, the handler is empty, and the
  parsed value is returned under an unchecked cast.
\<close>

definition loadSessionStore ::
  "(string \<Rightarrow> js_error + string) \<Rightarrow> (string \<Rightarrow> js_error + json) \<Rightarrow> string \<Rightarrow> json" where
  "loadSessionStore readFileSync JSON5_parse storePath =
     (case readFileSync storePath of
        Inl e \<Rightarrow> JObj []
      | Inr raw \<Rightarrow>
          (case JSON5_parse raw of
             Inl e \<Rightarrow> JObj []
           | Inr parsed \<Rightarrow>
               if js_truthy parsed \<and> js_typeof parsed = ''object'' then parsed else JObj []))"

text \<open>
  \<^verbatim>\<open>deriveSessionKey\<close>: \<^verbatim>\<open>normalizeE164\<close> lives in \<^verbatim>\<open>utils.ts\<close>, which is not among the
  sources, and is a parameter.  \<^verbatim>\<open>ctx.From ? normalizeE164(ctx.From) : ""\<close> skips an absent
  and an empty sender; \<^verbatim>\<open>from || "unknown"\<close> replaces an empty result.
\<close>

definition deriveSessionKey :: "(string \<Rightarrow> string) \<Rightarrow> SessionScope \<Rightarrow> MsgContext \<Rightarrow> string" where
  "deriveSessionKey normalizeE164 scope ctx =
     (if scope = Global then ''global''
      else
        let from = (case From ctx of
                      None \<Rightarrow> ''''
                    | Some f \<Rightarrow> if f = '''' then '''' else normalizeE164 f)
        in if from = '''' then ''unknown'' else from)"

section \<open>Configuration schema and loader (src/config/config.ts)\<close>

datatype ReplyMode = ModeText | ModeCommand

datatype ClaudeOutputFormat = FormatText | FormatJson | FormatStreamJson

datatype LogLevel = Silent | Fatal | Error | Warn | Info | Debug | Trace

record SessionConfig =
  scope :: "SessionScope option"
  resetTriggers :: "string list option"
  idleMinutes :: "int option"
  store :: "string option"
  sessionArgNew :: "string list option"
  sessionArgResume :: "string list option"
  sessionArgBeforeBody :: "bool option"
  sendSystemOnce :: "bool option"
  sessionIntro :: "string option"

record LoggingConfig =
  level :: "LogLevel option"
  "file" :: "string option"

record TranscribeAudioConfig =
  command :: "string list"
  timeoutSeconds :: "int option"

record ReplyConfig =
  mode :: ReplyMode
  "text" :: "string option"
  command :: "string list option"
  cwd :: "string option"
  template :: "string option"
  timeoutSeconds :: "int option"
  bodyPrefix :: "string option"
  mediaUrl :: "string option"
  session :: "SessionConfig option"
  claudeOutputFormat :: "ClaudeOutputFormat option"
  mediaMaxMb :: "jsnum option"

record InboundConfig =
  allowFrom :: "string list option"
  transcribeAudio :: "TranscribeAudioConfig option"
  reply :: "ReplyConfig option"

record WarelayConfig =
  logging :: "LoggingConfig option"
  inbound :: "InboundConfig option"

text \<open>The object \<^verbatim>\<open>{}\<close> at type \<^verbatim>\<open>WarelayConfig\<close>.\<close>

definition emptyConfig :: WarelayConfig where
  "emptyConfig = \<lparr>logging = None, inbound = None\<rparr>"

subsection \<open>The zod combinators the schemas use\<close>

text \<open>
  A schema maps a value to the validated data, or to \<open>None\<close> when it reports an issue.
  A property that the object does not have reads as \<^verbatim>\<open>undefined\<close>, here \<open>None\<close>;
  \<^verbatim>\<open>.optional()\<close> lets \<^verbatim>\<open>undefined\<close> through and nothing else (\<^verbatim>\<open>null\<close> is an issue).
\<close>

fun z_string :: "json \<Rightarrow> string option" where
  "z_string (JStr s) = Some s"
| "z_string _ = None"

fun z_boolean :: "json \<Rightarrow> bool option" where
  "z_boolean (JBool b) = Some b"
| "z_boolean _ = None"

fun z_strings :: "json list \<Rightarrow> string list option" where
  "z_strings [] = Some []"
| "z_strings (x # xs) =
     (case z_string x of
        None \<Rightarrow> None
      | Some s \<Rightarrow> (case z_strings xs of None \<Rightarrow> None | Some ss \<Rightarrow> Some (s # ss)))"

fun z_array_string :: "json \<Rightarrow> string list option" where
  "z_array_string (JArr xs) = z_strings xs"
| "z_array_string _ = None"

text \<open>
  Two things depend on the version of the zod library, which the sources do not name.
  Version 3 takes \<^verbatim>\<open>Infinity\<close> for a number and every integral number for an integer;
  version 4 refuses \<^verbatim>\<open>Infinity\<close> and takes only the safe integers, up to
  \<^verbatim>\<open>2^53 - 1\<close>, for integers.  The parameter \<open>zodThree\<close> of the schemas is true
  for version 3 and false for version 4.  \<^verbatim>\<open>NaN\<close> is a number for neither.
\<close>

definition MAX_SAFE_INTEGER :: int where
  "MAX_SAFE_INTEGER = 9007199254740991"

text \<open>\<^verbatim>\<open>z.number().int().positive()\<close>.\<close>

fun z_number_int_positive :: "bool \<Rightarrow> json \<Rightarrow> int option" where
  "z_number_int_positive zodThree (JNum (Finite r)) =
     (if r = of_int \<lfloor>r\<rfloor> \<and> (zodThree \<or> \<lfloor>r\<rfloor> \<le> MAX_SAFE_INTEGER) \<and> 0 < r then Some \<lfloor>r\<rfloor>
      else None)"
| "z_number_int_positive zodThree _ = None"

text \<open>\<^verbatim>\<open>z.number().positive()\<close>.\<close>

fun z_number_positive :: "bool \<Rightarrow> json \<Rightarrow> jsnum option" where
  "z_number_positive zodThree (JNum (Finite r)) = (if 0 < r then Some (Finite r) else None)"
| "z_number_positive zodThree (JNum PosInfinity) = (if zodThree then Some PosInfinity else None)"
| "z_number_positive zodThree _ = None"

definition z_optional :: "(json \<Rightarrow> 'a option) \<Rightarrow> json option \<Rightarrow> 'a option option" where
  "z_optional schema v = (case v of None \<Rightarrow> Some None | Some j \<Rightarrow> map_option Some (schema j))"

fun z_mode :: "json \<Rightarrow> ReplyMode option" where
  "z_mode (JStr s) =
     (if s = ''text'' then Some ModeText else if s = ''command'' then Some ModeCommand else None)"
| "z_mode _ = None"

fun z_scope :: "json \<Rightarrow> SessionScope option" where
  "z_scope (JStr s) =
     (if s = ''per-sender'' then Some PerSender else if s = ''global'' then Some Global else None)"
| "z_scope _ = None"

fun z_claudeOutputFormat :: "json \<Rightarrow> ClaudeOutputFormat option" where
  "z_claudeOutputFormat (JStr s) =
     (if s = ''text'' then Some FormatText
      else if s = ''json'' then Some FormatJson
      else if s = ''stream-json'' then Some FormatStreamJson
      else None)"
| "z_claudeOutputFormat _ = None"

fun z_level :: "json \<Rightarrow> LogLevel option" where
  "z_level (JStr s) =
     (if s = ''silent'' then Some Silent
      else if s = ''fatal'' then Some Fatal
      else if s = ''error'' then Some Error
      else if s = ''warn'' then Some Warn
      else if s = ''info'' then Some Info
      else if s = ''debug'' then Some Debug
      else if s = ''trace'' then Some Trace
      else None)"
| "z_level _ = None"

subsection \<open>The schemas\<close>

text \<open>
  \<^verbatim>\<open>z.object\<close> takes an object that is neither an array nor \<^verbatim>\<open>null\<close>, validates the
  listed properties and drops every other one.
\<close>

fun SessionSchema :: "bool \<Rightarrow> json \<Rightarrow> SessionConfig option" where
  "SessionSchema zodThree (JObj kvs) = do {
     sc \<leftarrow> z_optional z_scope (map_of kvs ''scope'');
     rt \<leftarrow> z_optional z_array_string (map_of kvs ''resetTriggers'');
     im \<leftarrow> z_optional (z_number_int_positive zodThree) (map_of kvs ''idleMinutes'');
     st \<leftarrow> z_optional z_string (map_of kvs ''store'');
     an \<leftarrow> z_optional z_array_string (map_of kvs ''sessionArgNew'');
     ar \<leftarrow> z_optional z_array_string (map_of kvs ''sessionArgResume'');
     bb \<leftarrow> z_optional z_boolean (map_of kvs ''sessionArgBeforeBody'');
     so \<leftarrow> z_optional z_boolean (map_of kvs ''sendSystemOnce'');
     si \<leftarrow> z_optional z_string (map_of kvs ''sessionIntro'');
     Some \<lparr>scope = sc, resetTriggers = rt, idleMinutes = im, store = st, sessionArgNew = an,
       sessionArgResume = ar, sessionArgBeforeBody = bb, sendSystemOnce = so,
       sessionIntro = si\<rparr>
   }"
| "SessionSchema zodThree _ = None"

text \<open>The object part of \<^verbatim>\<open>ReplySchema\<close>, before \<^verbatim>\<open>.refine\<close>.\<close>

fun ReplyObject :: "bool \<Rightarrow> json \<Rightarrow> ReplyConfig option" where
  "ReplyObject zodThree (JObj kvs) = do {
     m \<leftarrow> (case map_of kvs ''mode'' of None \<Rightarrow> None | Some j \<Rightarrow> z_mode j);
     t \<leftarrow> z_optional z_string (map_of kvs ''text'');
     c \<leftarrow> z_optional z_array_string (map_of kvs ''command'');
     w \<leftarrow> z_optional z_string (map_of kvs ''cwd'');
     tm \<leftarrow> z_optional z_string (map_of kvs ''template'');
     ts \<leftarrow> z_optional (z_number_int_positive zodThree) (map_of kvs ''timeoutSeconds'');
     bp \<leftarrow> z_optional z_string (map_of kvs ''bodyPrefix'');
     mu \<leftarrow> z_optional z_string (map_of kvs ''mediaUrl'');
     mm \<leftarrow> z_optional (z_number_positive zodThree) (map_of kvs ''mediaMaxMb'');
     se \<leftarrow> z_optional (SessionSchema zodThree) (map_of kvs ''session'');
     cf \<leftarrow> z_optional z_claudeOutputFormat (map_of kvs ''claudeOutputFormat'');
     Some \<lparr>mode = m, text = t, command = c, cwd = w, template = tm, timeoutSeconds = ts,
       bodyPrefix = bp, mediaUrl = mu, session = se, claudeOutputFormat = cf, mediaMaxMb = mm\<rparr>
   }"
| "ReplyObject zodThree _ = None"

text \<open>
  The refinement \<^verbatim>\<open>val.mode === "text" ? Boolean(val.text) : Boolean(val.command)\<close>:
  an absent and an empty string are falsy, every array is truthy.
\<close>

definition refineReply :: "ReplyConfig \<Rightarrow> bool" where
  "refineReply val =
     (if mode val = ModeText then text val \<noteq> None \<and> text val \<noteq> Some ''''
      else command val \<noteq> None)"

definition ReplySchema :: "bool \<Rightarrow> json \<Rightarrow> ReplyConfig option" where
  "ReplySchema zodThree v =
     (case ReplyObject zodThree v of
        None \<Rightarrow> None
      | Some val \<Rightarrow> if refineReply val then Some val else None)"

fun LoggingSchema :: "json \<Rightarrow> LoggingConfig option" where
  "LoggingSchema (JObj kvs) = do {
     l \<leftarrow> z_optional z_level (map_of kvs ''level'');
     f \<leftarrow> z_optional z_string (map_of kvs ''file'');
     Some \<lparr>level = l, file = f\<rparr>
   }"
| "LoggingSchema _ = None"

fun TranscribeAudioSchema :: "bool \<Rightarrow> json \<Rightarrow> TranscribeAudioConfig option" where
  "TranscribeAudioSchema zodThree (JObj kvs) = do {
     c \<leftarrow> (case map_of kvs ''command'' of None \<Rightarrow> None | Some j \<Rightarrow> z_array_string j);
     ts \<leftarrow> z_optional (z_number_int_positive zodThree) (map_of kvs ''timeoutSeconds'');
     Some \<lparr>TranscribeAudioConfig.command = c, TranscribeAudioConfig.timeoutSeconds = ts\<rparr>
   }"
| "TranscribeAudioSchema zodThree _ = None"

fun InboundSchema :: "bool \<Rightarrow> json \<Rightarrow> InboundConfig option" where
  "InboundSchema zodThree (JObj kvs) = do {
     af \<leftarrow> z_optional z_array_string (map_of kvs ''allowFrom'');
     ta \<leftarrow> z_optional (TranscribeAudioSchema zodThree) (map_of kvs ''transcribeAudio'');
     r \<leftarrow> z_optional (ReplySchema zodThree) (map_of kvs ''reply'');
     Some \<lparr>allowFrom = af, transcribeAudio = ta, reply = r\<rparr>
   }"
| "InboundSchema zodThree _ = None"

fun WarelaySchema :: "bool \<Rightarrow> json \<Rightarrow> WarelayConfig option" where
  "WarelaySchema zodThree (JObj kvs) = do {
     l \<leftarrow> z_optional LoggingSchema (map_of kvs ''logging'');
     i \<leftarrow> z_optional (InboundSchema zodThree) (map_of kvs ''inbound'');
     Some \<lparr>logging = l, inbound = i\<rparr>
   }"
| "WarelaySchema zodThree _ = None"

subsection \<open>loadConfig\<close>

text \<open>
  \<^verbatim>\<open>loadConfig\<close> reads the file at \<^verbatim>\<open>CONFIG_PATH\<close>.  The file system
  (\<^verbatim>\<open>fs.existsSync\<close>, \<^verbatim>\<open>fs.readFileSync\<close>) and \<^verbatim>\<open>JSON5.parse\<close> are parameters;
  a call that throws returns \<open>Inl\<close>, and the \<^verbatim>\<open>catch\<close> of the source turns it into
  \<^verbatim>\<open>{}\<close>.  What the function prints with \<^verbatim>\<open>console.error\<close> is left out.
\<close>

definition loadConfig ::
  "bool \<Rightarrow> string \<Rightarrow> (string \<Rightarrow> bool) \<Rightarrow> (string \<Rightarrow> js_error + string) \<Rightarrow>
   (string \<Rightarrow> js_error + json) \<Rightarrow> WarelayConfig" where
  "loadConfig zodThree CONFIG_PATH existsSync readFileSync JSON5_parse =
     (if \<not> existsSync CONFIG_PATH then emptyConfig
      else
        case readFileSync CONFIG_PATH of
          Inl err \<Rightarrow> emptyConfig
        | Inr raw \<Rightarrow>
            (case JSON5_parse raw of
               Inl err \<Rightarrow> emptyConfig
             | Inr parsed \<Rightarrow>
                 if js_typeof parsed \<noteq> ''object'' \<or> parsed = JNull then emptyConfig
                 else
                   (case WarelaySchema zodThree parsed of
                      None \<Rightarrow> emptyConfig
                    | Some data \<Rightarrow> data)))"

section \<open>Media token extractor\<close>

text \<open>
  Modelled from the spec: \<^verbatim>\<open>splitMediaFromOutput\<close> lives in \<^verbatim>\<open>media/parse.ts\<close>, which is
  not among the sources; only its tests are.  The model follows section 4.5 of the spec.
  Two notions that the spec uses and does not define are parameters: \<open>plausible\<close> tells
  whether a string is a plausible URL or filesystem path, and \<open>decode\<close> is the decoding of a
  token.  Where the spec leaves a detail open, the model fixes it so that every test of the
  extractor in the test file holds: the punctuation stripped from the end of a token is a
  quote, a backtick, a closing bracket or a comma; collapsing removes blanks before a line
  break and squeezes runs of blanks and runs of line breaks.  Where the spec and a test
  disagree, the model follows the test: when no marker has a valid token the spec returns
  the text unchanged, while the test "ignores invalid MEDIA lines with whitespace" expects
  the line that holds the marker to be gone.
\<close>

definition NL :: char where
  "NL = CHR 0x0A"

definition is_blank :: "char \<Rightarrow> bool" where
  "is_blank c = (c = CHR '' '' \<or> c = CHR 0x09)"

definition is_space :: "char \<Rightarrow> bool" where
  "is_space c = (is_blank c \<or> c = NL \<or> c = CHR 0x0B \<or> c = CHR 0x0C \<or> c = CHR 0x0D)"

definition trim :: "string \<Rightarrow> string" where
  "trim s = rev (dropWhile is_space (rev (dropWhile is_space s)))"

definition MEDIA_MARKER :: string where
  "MEDIA_MARKER = ''MEDIA:''"

definition skip_char :: "char \<Rightarrow> string \<Rightarrow> string" where
  "skip_char c s = (case s of [] \<Rightarrow> [] | d # ds \<Rightarrow> if d = c then ds else s)"

definition is_token_char :: "char \<Rightarrow> bool" where
  "is_token_char c = (\<not> is_space c \<and> c \<noteq> CHR 0x60)"

text \<open>
  The token after a marker: at most one space, an opening backtick, the characters up to
  the first whitespace or backtick, a closing backtick.  The result is the token and the
  text that follows the match.
\<close>

definition media_token :: "string \<Rightarrow> string \<times> string" where
  "media_token after =
     (let opened = skip_char (CHR 0x60) (skip_char (CHR '' '') after)
      in (takeWhile is_token_char opened,
          skip_char (CHR 0x60) (dropWhile is_token_char opened)))"

definition is_trailing_punct :: "char \<Rightarrow> bool" where
  "is_trailing_punct c = (c \<in> set [CHR 0x22, CHR 0x27, CHR 0x60, CHR ''}'', CHR '']'', CHR '')'', CHR '',''])"

definition cleanCandidate :: "string \<Rightarrow> string" where
  "cleanCandidate raw = rev (dropWhile is_trailing_punct (rev raw))"

text \<open>The candidate of a marker: its token without trailing punctuation, decoded.\<close>

definition media_candidate :: "(string \<Rightarrow> string) \<Rightarrow> string \<Rightarrow> string" where
  "media_candidate decode after = decode (cleanCandidate (fst (media_token after)))"

definition isValidMedia :: "(string \<Rightarrow> bool) \<Rightarrow> string \<Rightarrow> bool" where
  "isValidMedia plausible candidate =
     (candidate \<noteq> [] \<and> \<not> list_ex is_space candidate \<and> plausible candidate)"

text \<open>
  A valid occurrence at the start of the text: the marker, followed by a token whose
  candidate is valid.  The result is the candidate and the text that follows the match.
\<close>

definition media_at ::
  "(string \<Rightarrow> bool) \<Rightarrow> (string \<Rightarrow> string) \<Rightarrow> string \<Rightarrow> (string \<times> string) option" where
  "media_at plausible decode s =
     (if prefix MEDIA_MARKER s then
        let after = drop (length MEDIA_MARKER) s
        in if isValidMedia plausible (media_candidate decode after)
           then Some (media_candidate decode after, snd (media_token after))
           else None
      else None)"

text \<open>
  The first valid occurrence: the text before it, the candidate, and the text that follows
  the match.
\<close>

fun find_media ::
  "(string \<Rightarrow> bool) \<Rightarrow> (string \<Rightarrow> string) \<Rightarrow> string \<Rightarrow> (string \<times> string \<times> string) option" where
  "find_media plausible decode [] = None"
| "find_media plausible decode (c # cs) =
     (case media_at plausible decode (c # cs) of
        Some (url, rest) \<Rightarrow> Some ([], url, rest)
      | None \<Rightarrow>
          map_option (\<lambda>(before, url, rest). (c # before, url, rest))
            (find_media plausible decode cs))"

text \<open>Blanks in front of a line break go; \<open>pending\<close> holds the blanks read so far.\<close>

fun strip_blanks_before_newline :: "string \<Rightarrow> string \<Rightarrow> string" where
  "strip_blanks_before_newline pending [] = pending"
| "strip_blanks_before_newline pending (c # cs) =
     (if is_blank c then strip_blanks_before_newline (pending @ [c]) cs
      else if c = NL then c # strip_blanks_before_newline [] cs
      else pending @ c # strip_blanks_before_newline [] cs)"

text \<open>A run of two or more blanks becomes one space.\<close>

definition squeeze :: "string \<Rightarrow> string" where
  "squeeze pending = (if 2 \<le> length pending then '' '' else pending)"

fun collapse_blanks :: "string \<Rightarrow> string \<Rightarrow> string" where
  "collapse_blanks pending [] = squeeze pending"
| "collapse_blanks pending (c # cs) =
     (if is_blank c then collapse_blanks (pending @ [c]) cs
      else squeeze pending @ c # collapse_blanks [] cs)"

text \<open>A run of line breaks becomes one line break.\<close>

fun collapse_newlines :: "string \<Rightarrow> string" where
  "collapse_newlines (c # d # cs) =
     (if c = NL \<and> d = NL then collapse_newlines (d # cs) else c # collapse_newlines (d # cs))"
| "collapse_newlines cs = cs"

definition collapse :: "string \<Rightarrow> string" where
  "collapse s = trim (collapse_newlines (collapse_blanks [] (strip_blanks_before_newline [] s)))"

fun split_lines :: "string \<Rightarrow> string list" where
  "split_lines [] = [[]]"
| "split_lines (c # cs) =
     (if c = NL then [] # split_lines cs
      else (case split_lines cs of [] \<Rightarrow> [[c]] | l # ls \<Rightarrow> (c # l) # ls))"

fun join_lines :: "string list \<Rightarrow> string" where
  "join_lines [] = []"
| "join_lines [l] = l"
| "join_lines (l # ls) = l @ NL # join_lines ls"

record ReplyResult =
  "text" :: string
  mediaUrl :: "string option"

text \<open>
  The first valid occurrence is honored: the marker and its token leave the text, and the
  rest is collapsed.  Without a valid occurrence there is no attachment; the lines that hold
  a marker leave the text, and a text without a marker comes back unchanged.
\<close>

definition splitMediaFromOutput ::
  "(string \<Rightarrow> bool) \<Rightarrow> (string \<Rightarrow> string) \<Rightarrow> string \<Rightarrow> ReplyResult" where
  "splitMediaFromOutput plausible decode raw =
     (case find_media plausible decode raw of
        Some (before, url, rest) \<Rightarrow> \<lparr>text = collapse (before @ rest), mediaUrl = Some url\<rparr>
      | None \<Rightarrow>
          if sublist MEDIA_MARKER raw
          then \<lparr>text = collapse (join_lines (filter (\<lambda>l. \<not> sublist MEDIA_MARKER l) (split_lines raw))),
                mediaUrl = None\<rparr>
          else \<lparr>text = raw, mediaUrl = None\<rparr>)"

text \<open>
  Section 4.4, steps 5 and 6, for an output that is not JSON: the placeholder for an empty
  output, otherwise the extractor on the trimmed output.
\<close>

definition NO_OUTPUT :: string where
  "NO_OUTPUT = ''(command produced no output)''"

definition replyFromStdout ::
  "(string \<Rightarrow> bool) \<Rightarrow> (string \<Rightarrow> string) \<Rightarrow> string \<Rightarrow> ReplyResult" where
  "replyFromStdout plausible decode stdout =
     (if trim stdout = [] then \<lparr>text = NO_OUTPUT, mediaUrl = None\<rparr>
      else splitMediaFromOutput plausible decode (trim stdout))"

section \<open>Reply builder: the timeout reply\<close>

text \<open>Decimal digits of a number, as a JavaScript template literal prints an integer.\<close>

fun show_nat :: "nat \<Rightarrow> string" where
  "show_nat n =
     (if n < 10 then [char_of (48 + n)] else show_nat (n div 10) @ [char_of (48 + n mod 10)])"

definition show_int :: "int \<Rightarrow> string" where
  "show_int i = (if i < 0 then CHR ''-'' # show_nat (nat (- i)) else show_nat (nat i))"

text \<open>
  Modelled from the spec: \<^verbatim>\<open>getReplyFromConfig\<close> is not among the sources; only its tests
  are.  Section 4.4, step 4 of the spec: the timeout defaults to 600 seconds; on a timeout the
  text is the fixed sentence with the configured number of seconds, and, when the partial
  standard output is not empty, two more lines: the heading, and the first 800 characters of
  that output followed by three dots.
\<close>

definition DEFAULT_TIMEOUT_SECONDS :: int where
  "DEFAULT_TIMEOUT_SECONDS = 600"

definition replyTimeoutSeconds :: "ReplyConfig \<Rightarrow> int" where
  "replyTimeoutSeconds cfg =
     (case timeoutSeconds cfg of None \<Rightarrow> DEFAULT_TIMEOUT_SECONDS | Some n \<Rightarrow> n)"

definition timeoutBase :: "ReplyConfig \<Rightarrow> string" where
  "timeoutBase cfg =
     ''Command timed out after '' @ show_int (replyTimeoutSeconds cfg) @
     ''s. Try a shorter prompt or split the request.''"

definition timeoutReply :: "ReplyConfig \<Rightarrow> string \<Rightarrow> ReplyResult" where
  "timeoutReply cfg partial =
     \<lparr>text =
        (if partial = [] then timeoutBase cfg
         else timeoutBase cfg @ [NL] @ ''Partial output before timeout:'' @ [NL] @
              take 800 partial @ ''...''),
      mediaUrl = None\<rparr>"

text \<open>The configuration of the two timeout tests of the test file, with 42 seconds.\<close>

definition timeoutTestConfig :: ReplyConfig where
  "timeoutTestConfig =
     \<lparr>mode = ModeCommand, ReplyConfig.text = None, command = Some [''echo'', ''{{Body}}''],
      cwd = None, template = None, timeoutSeconds = Some 42, bodyPrefix = None,
      ReplyConfig.mediaUrl = None, session = None, claudeOutputFormat = None, mediaMaxMb = None\<rparr>"

section \<open>Template renderer\<close>

text \<open>
  Modelled from the spec: \<^verbatim>\<open>applyTemplate\<close> lives in \<^verbatim>\<open>auto-reply/templating.ts\<close>,
  which is not among the sources.  Section 4.1 of the spec: every \<^verbatim>\<open>{{Key}}\<close> is replaced
  by the value of the key, or by the empty string when the key has no value.  A key is a
  non-empty run of letters, digits and underscores; braces around anything else stay as they
  are.
\<close>

type_synonym TemplateContext = "string \<Rightarrow> string option"

definition is_word_char :: "char \<Rightarrow> bool" where
  "is_word_char c =
     (let n = (of_char c :: nat)
      in (48 \<le> n \<and> n \<le> 57) \<or> (65 \<le> n \<and> n \<le> 90) \<or> (97 \<le> n \<and> n \<le> 122) \<or> n = 95)"

function applyTemplate :: "string \<Rightarrow> TemplateContext \<Rightarrow> string" where
  "applyTemplate [] env = []"
| "applyTemplate [c] env = [c]"
| "applyTemplate (c # d # cs) env =
     (if c = CHR ''{'' \<and> d = CHR ''{'' \<and> takeWhile is_word_char cs \<noteq> [] \<and>
         prefix ''}}'' (dropWhile is_word_char cs)
      then (case env (takeWhile is_word_char cs) of None \<Rightarrow> [] | Some v \<Rightarrow> v) @
           applyTemplate (drop 2 (dropWhile is_word_char cs)) env
      else c # applyTemplate (d # cs) env)"
  by pat_completeness auto
termination
proof (relation "measure (\<lambda>(s, env). length s)")
  fix c d :: char and cs :: string and env :: TemplateContext
  have "length (dropWhile is_word_char cs) \<le> length cs"
    by (rule length_dropWhile_le)
  then show "((drop 2 (dropWhile is_word_char cs), env), c # d # cs, env)
      \<in> measure (\<lambda>(s, env). length s)"
    by simp
qed simp_all

text \<open>
  The values a template can use: the message fields, the effective body under both
  \<^verbatim>\<open>Body\<close> and \<^verbatim>\<open>BodyStripped\<close>, and the session id.
\<close>

definition templatingCtx :: "MsgContext \<Rightarrow> string \<Rightarrow> string option \<Rightarrow> TemplateContext" where
  "templatingCtx ctx body sid key =
     (if key = ''Body'' then Some body
      else if key = ''BodyStripped'' then Some body
      else if key = ''From'' then From ctx
      else if key = ''To'' then To ctx
      else if key = ''MediaPath'' then MediaPath ctx
      else if key = ''MediaUrl'' then MediaUrl ctx
      else if key = ''MediaType'' then MediaType ctx
      else if key = ''SessionId'' then sid
      else None)"

section \<open>Session manager\<close>

record SessionEntry =
  sessionId :: string
  updatedAt :: int
  systemSent :: bool

type_synonym SessionStore = "string \<Rightarrow> SessionEntry option"

text \<open>The two defaults that src/config/sessions.ts exports.\<close>

definition DEFAULT_RESET_TRIGGER :: string where
  "DEFAULT_RESET_TRIGGER = ''/new''"

definition DEFAULT_IDLE_MINUTES :: int where
  "DEFAULT_IDLE_MINUTES = 60"

text \<open>
  Modelled from the spec: the session handling of \<^verbatim>\<open>getReplyFromConfig\<close> is not among the
  sources.  Section 4.2 of the spec, steps 1 to 5, 7 and 8.  The clock (\<open>now\<close>, in
  milliseconds) and the identifier the generator would mint (\<open>newId\<close>) are parameters.
\<close>

text \<open>Step 3: the body without the first trigger it starts with, and the whitespace after it.\<close>

fun matchTrigger :: "string list \<Rightarrow> string \<Rightarrow> string option" where
  "matchTrigger [] body = None"
| "matchTrigger (t # ts) body =
     (if prefix t body then Some (dropWhile is_space (drop (length t) body))
      else matchTrigger ts body)"

definition sessionTriggers :: "SessionConfig \<Rightarrow> string list" where
  "sessionTriggers scfg =
     (case resetTriggers scfg of None \<Rightarrow> [DEFAULT_RESET_TRIGGER] | Some ts \<Rightarrow> ts)"

definition sessionIdleMs :: "SessionConfig \<Rightarrow> int" where
  "sessionIdleMs scfg =
     (case idleMinutes scfg of None \<Rightarrow> DEFAULT_IDLE_MINUTES | Some m \<Rightarrow> m) * 60000"

definition sessionKeyOf :: "(string \<Rightarrow> string) \<Rightarrow> SessionConfig \<Rightarrow> MsgContext \<Rightarrow> string" where
  "sessionKeyOf normalizeE164 scfg ctx =
     deriveSessionKey normalizeE164 (case scope scfg of None \<Rightarrow> PerSender | Some s \<Rightarrow> s) ctx"

record SessionResolution =
  sessionKey :: string
  entry :: SessionEntry
  isNew :: bool
  firstTurn :: bool
  strippedBody :: string

definition resolveSession ::
  "(string \<Rightarrow> string) \<Rightarrow> SessionConfig \<Rightarrow> SessionStore \<Rightarrow> int \<Rightarrow> string \<Rightarrow> MsgContext \<Rightarrow>
   SessionResolution" where
  "resolveSession normalizeE164 scfg st now newId ctx =
     (let key = sessionKeyOf normalizeE164 scfg ctx;
          reset = matchTrigger (sessionTriggers scfg) (trim (Body ctx));
          reuse =
            (case st key of
               None \<Rightarrow> None
             | Some e \<Rightarrow>
                 if reset = None \<and> \<not> (now - updatedAt e > sessionIdleMs scfg) then Some e
                 else None);
          sid = (case reuse of None \<Rightarrow> newId | Some e \<Rightarrow> sessionId e);
          sent = (case reuse of None \<Rightarrow> False | Some e \<Rightarrow> systemSent e)
      in \<lparr>sessionKey = key,
          entry = \<lparr>sessionId = sid, updatedAt = now,
                    systemSent = (sent \<or> sendSystemOnce scfg = Some True)\<rparr>,
          isNew = (reuse = None),
          firstTurn = (\<not> sent),
          strippedBody = (case reset of None \<Rightarrow> Body ctx | Some b \<Rightarrow> b)\<rparr>)"

section \<open>Reply builder: the command line\<close>

text \<open>
  Modelled from the spec: the command branch of \<^verbatim>\<open>getReplyFromConfig\<close> is not among the
  sources.  Section 4.4, steps 1 and 2, and section 4.2, steps 6 and 7 of the spec.  The
  final element of the configured command is the prompt.  Where the spec is silent the
  model follows the tests of the test file: the template is an argument of its own in front
  of the prompt, and a turn that leaves out the body prefix leaves out the template too.
  The text of the identity preamble is a parameter.
\<close>

definition CLAUDE_BIN :: string where
  "CLAUDE_BIN = ''claude''"

text \<open>New arguments go in front of the final argument; the first argument stays first.\<close>

definition insertBeforeBody :: "string list \<Rightarrow> string list \<Rightarrow> string list" where
  "insertBeforeBody args argv =
     (if length argv \<le> 1 then argv @ args else butlast argv @ args @ [last argv])"

definition hasPrintFlag :: "string list \<Rightarrow> bool" where
  "hasPrintFlag argv = (''-p'' \<in> set argv \<or> ''--print'' \<in> set argv)"

definition hasOutputFormat :: "string list \<Rightarrow> bool" where
  "hasOutputFormat argv =
     list_ex (\<lambda>part. part = ''--output-format'' \<or> prefix ''--output-format='' part) argv"

fun formatName :: "ClaudeOutputFormat \<Rightarrow> string" where
  "formatName FormatText = ''text''"
| "formatName FormatJson = ''json''"
| "formatName FormatStreamJson = ''stream-json''"

definition outputFormatOf :: "ReplyConfig \<Rightarrow> string" where
  "outputFormatOf cfg =
     formatName (case claudeOutputFormat cfg of None \<Rightarrow> FormatText | Some f \<Rightarrow> f)"

text \<open>
  Step 2, for a command that starts with the assistant binary: the output format flag and
  the print flag, each unless it is among the arguments in front of the prompt already, go
  in front of the prompt, and the preamble goes in front of the prompt's text, separated by
  a blank line.  A command of the binary alone has no prompt.
\<close>

definition optionsOf :: "string list \<Rightarrow> string list" where
  "optionsOf argv = (if length argv \<le> 1 then argv else butlast argv)"

definition claudeFlags :: "ReplyConfig \<Rightarrow> string list \<Rightarrow> string list" where
  "claudeFlags cfg options =
     (if hasOutputFormat options then [] else [''--output-format'', outputFormatOf cfg]) @
     (if hasPrintFlag options then [] else [''-p''])"

definition claudeArgs :: "string \<Rightarrow> ReplyConfig \<Rightarrow> string list \<Rightarrow> string list" where
  "claudeArgs identity cfg argv =
     (if argv \<noteq> [] \<and> hd argv = CLAUDE_BIN then
        if length argv \<le> 1 then argv @ claudeFlags cfg argv
        else butlast argv @ claudeFlags cfg (butlast argv) @ [identity @ [NL, NL] @ last argv]
      else argv)"

text \<open>
  Section 4.2, step 7: with \<open>sendSystemOnce\<close>, the body prefix and the intro go only into
  the first turn of a session.
\<close>

definition promptBody :: "ReplyConfig \<Rightarrow> SessionResolution option \<Rightarrow> MsgContext \<Rightarrow> string" where
  "promptBody cfg res ctx =
     (case res of
        None \<Rightarrow> (case bodyPrefix cfg of None \<Rightarrow> [] | Some p \<Rightarrow> p) @ Body ctx
      | Some r \<Rightarrow>
          let once = (case session cfg of None \<Rightarrow> False | Some s \<Rightarrow> sendSystemOnce s = Some True);
              prefixed =
                (if \<not> once \<or> firstTurn r
                 then (case bodyPrefix cfg of None \<Rightarrow> [] | Some p \<Rightarrow> p) @ strippedBody r
                 else strippedBody r)
          in (case session cfg of
                None \<Rightarrow> prefixed
              | Some s \<Rightarrow>
                  (case sessionIntro s of
                     None \<Rightarrow> prefixed
                   | Some intro \<Rightarrow>
                       if once \<and> firstTurn r then intro @ [NL, NL] @ prefixed else prefixed)))"

definition withTemplate ::
  "ReplyConfig \<Rightarrow> SessionResolution option \<Rightarrow> TemplateContext \<Rightarrow> string list \<Rightarrow> string list" where
  "withTemplate cfg res env argv =
     (let once = (case session cfg of None \<Rightarrow> False | Some s \<Rightarrow> sendSystemOnce s = Some True);
          first = (case res of None \<Rightarrow> True | Some r \<Rightarrow> firstTurn r)
      in case template cfg of
           None \<Rightarrow> argv
         | Some t \<Rightarrow>
             if \<not> once \<or> first then insertBeforeBody [applyTemplate t env] argv else argv)"

text \<open>Section 4.2, step 6: the rendered fragment for a new or a resumed session.\<close>

definition sessionArgs :: "SessionConfig \<Rightarrow> bool \<Rightarrow> TemplateContext \<Rightarrow> string list" where
  "sessionArgs scfg new env =
     map (\<lambda>part. applyTemplate part env)
       (case (if new then sessionArgNew scfg else sessionArgResume scfg) of
          None \<Rightarrow> []
        | Some parts \<Rightarrow> parts)"

text \<open>
  The fragment goes in front of the body, or behind it when \<open>sessionArgBeforeBody\<close> is
  false.  For the assistant binary step 2 of section 4.4 keeps the prompt in the final
  position, so there the fragment always goes in front of the prompt.
\<close>

definition withSessionArgs ::
  "SessionConfig \<Rightarrow> bool \<Rightarrow> string list \<Rightarrow> string list \<Rightarrow> string list" where
  "withSessionArgs scfg claude args argv =
     (if sessionArgBeforeBody scfg = Some False \<and> \<not> claude then argv @ args
      else insertBeforeBody args argv)"

text \<open>
  One command-mode turn: the command line handed to the runner, the command line as it is
  after step 1, the session resolution, the values the templates saw, and the store after
  the turn.
\<close>

record CommandTurn =
  argv :: "string list"
  rendered :: "string list"
  resolution :: "SessionResolution option"
  templating :: TemplateContext
  saved :: SessionStore

definition commandTurn ::
  "(string \<Rightarrow> string) \<Rightarrow> string \<Rightarrow> ReplyConfig \<Rightarrow> string list \<Rightarrow> SessionStore \<Rightarrow> int \<Rightarrow> string \<Rightarrow>
   MsgContext \<Rightarrow> CommandTurn" where
  "commandTurn normalizeE164 identity cfg cmd st now newId ctx =
     (let res = map_option (\<lambda>scfg. resolveSession normalizeE164 scfg st now newId ctx) (session cfg);
          env = templatingCtx ctx (promptBody cfg res ctx)
                  (map_option (\<lambda>r. sessionId (entry r)) res);
          composed = withTemplate cfg res env (map (\<lambda>part. applyTemplate part env) cmd);
          flagged = claudeArgs identity cfg composed
      in \<lparr>argv =
            (case (session cfg, res) of
               (Some scfg, Some r) \<Rightarrow>
                 withSessionArgs scfg (composed \<noteq> [] \<and> hd composed = CLAUDE_BIN)
                   (sessionArgs scfg (isNew r) env) flagged
             | _ \<Rightarrow> flagged),
          rendered = composed,
          resolution = res,
          templating = env,
          saved = (case res of None \<Rightarrow> st | Some r \<Rightarrow> st(sessionKey r \<mapsto> entry r))\<rparr>)"

section \<open>Command queue\<close>

text \<open>
  Modelled from the spec: the queue lives in \<^verbatim>\<open>process/command-queue.ts\<close>, which is not
  among the sources.  Section 4.6 and the first design note of the spec: one ordered list of
  waiting tasks and one flag that says a task is running.  The model is a transition system.
  A caller enqueues a task at the end of the list; the queue starts the task at the head when
  the flag is down; a running task finishes with some outcome, which is recorded for that
  task alone, and the flag goes down.  An event that is not enabled leaves the state as it
  is.  The tasks that are running are a list, so that "at most one" is a property of the
  transitions and not of the type.
\<close>

datatype outcome = Completed | TimedOut | Failed

datatype 'task event = Enqueue 'task | Start | Finish outcome

record 'task queue =
  pending :: "'task list"
  running :: "'task list"
  busy :: bool
  settled :: "('task \<times> outcome) list"

definition emptyQueue :: "'task queue" where
  "emptyQueue = \<lparr>pending = [], running = [], busy = False, settled = []\<rparr>"

fun step :: "'task event \<Rightarrow> 'task queue \<Rightarrow> 'task queue" where
  "step (Enqueue task) q = q\<lparr>pending := pending q @ [task]\<rparr>"
| "step Start q =
     (case pending q of
        [] \<Rightarrow> q
      | task # rest \<Rightarrow>
          if busy q then q
          else q\<lparr>pending := rest, running := running q @ [task], busy := True\<rparr>)"
| "step (Finish result) q =
     (case running q of
        [] \<Rightarrow> q
      | task # rest \<Rightarrow>
          q\<lparr>running := rest, busy := False, settled := settled q @ [(task, result)]\<rparr>)"

definition run :: "'task event list \<Rightarrow> 'task queue \<Rightarrow> 'task queue" where
  "run events q = foldl (\<lambda>q e. step e q) q events"

text \<open>The tasks that the callers submitted, in the order of their arrival.\<close>

fun arrivals :: "'task event list \<Rightarrow> 'task list" where
  "arrivals [] = []"
| "arrivals (Enqueue task # events) = task # arrivals events"
| "arrivals (e # events) = arrivals events"

text \<open>
  The events by which the queue empties itself when the task \<open>t\<close> ends with the outcome
  \<open>result t\<close>: the running task finishes, then each waiting task starts and finishes.
\<close>

definition drain :: "('task \<Rightarrow> outcome) \<Rightarrow> 'task queue \<Rightarrow> 'task event list" where
  "drain result q =
     map (\<lambda>task. Finish (result task)) (running q) @
     concat (map (\<lambda>task. [Start, Finish (result task)]) (pending q))"

text \<open>What holds of every state that the queue can reach.\<close>

definition queue_ok :: "'task queue \<Rightarrow> bool" where
  "queue_ok q = (length (running q) \<le> 1 \<and> (busy q = (running q \<noteq> [])))"

text \<open>The settled tasks, the running task and the waiting tasks, in this order.\<close>

definition serviceOrder :: "'task queue \<Rightarrow> 'task list" where
  "serviceOrder q = map fst (settled q) @ running q @ pending q"

section \<open>The configurations of the tests\<close>

text \<open>
  The message contexts and the reply configurations that the tests of the test file pass to
  \<^verbatim>\<open>getReplyFromConfig\<close>.
\<close>

definition testMessage :: "string \<Rightarrow> string \<Rightarrow> string \<Rightarrow> MsgContext" where
  "testMessage body sender receiver =
     \<lparr>Body = body, From = Some sender, To = Some receiver, MediaPath = None, MediaUrl = None,
      MediaType = None, MessageId = None\<rparr>"

definition sessionTestSession :: SessionConfig where
  "sessionTestSession =
     \<lparr>scope = Some PerSender, resetTriggers = Some [''/new''], idleMinutes = None,
      store = Some ''/tmp/warelay-store.json'',
      sessionArgNew = Some [''--sid'', ''{{SessionId}}''],
      sessionArgResume = Some [''--resume'', ''{{SessionId}}''],
      sessionArgBeforeBody = None, sendSystemOnce = None, sessionIntro = None\<rparr>"

definition sessionTestConfig :: ReplyConfig where
  "sessionTestConfig =
     \<lparr>mode = ModeCommand, ReplyConfig.text = None, command = Some [''echo'', ''{{Body}}''],
      cwd = None, template = Some ''[tmpl]'', timeoutSeconds = None, bodyPrefix = None,
      ReplyConfig.mediaUrl = None, session = Some sessionTestSession, claudeOutputFormat = None,
      mediaMaxMb = None\<rparr>"

definition systemOnceTestSession :: SessionConfig where
  "systemOnceTestSession =
     \<lparr>scope = None, resetTriggers = None, idleMinutes = None,
      store = Some ''/tmp/warelay-store.json'',
      sessionArgNew = Some [''--sid'', ''{{SessionId}}''],
      sessionArgResume = Some [''--resume'', ''{{SessionId}}''],
      sessionArgBeforeBody = None, sendSystemOnce = Some True, sessionIntro = Some ''SYS''\<rparr>"

definition systemOnceTestConfig :: ReplyConfig where
  "systemOnceTestConfig =
     \<lparr>mode = ModeCommand, ReplyConfig.text = None, command = Some [''echo'', ''{{Body}}''],
      cwd = None, template = Some ''[tmpl]'', timeoutSeconds = None, bodyPrefix = Some ''[pfx] '',
      ReplyConfig.mediaUrl = None, session = Some systemOnceTestSession,
      claudeOutputFormat = None, mediaMaxMb = None\<rparr>"

definition claudeTestConfig :: "ClaudeOutputFormat option \<Rightarrow> ReplyConfig" where
  "claudeTestConfig format =
     \<lparr>mode = ModeCommand, ReplyConfig.text = None, command = Some [''claude'', ''{{Body}}''],
      cwd = None, template = None, timeoutSeconds = None, bodyPrefix = None,
      ReplyConfig.mediaUrl = None, session = None, claudeOutputFormat = format,
      mediaMaxMb = None\<rparr>"

text \<open>
  The media references of the tests are an \<^verbatim>\<open>https\<close> URL and absolute paths, taken as they
  stand.  For the replays a plausible URL or path is one of these two forms, and decoding
  leaves the token as it is.  A second decoder, which reads \<^verbatim>\<open>+\<close> as a blank, serves as an
  example of a token that decodes to something with whitespace inside.
\<close>

definition plausibleInTests :: "string \<Rightarrow> bool" where
  "plausibleInTests s = (prefix ''https://'' s \<or> prefix ''/'' s)"

definition decodeInTests :: "string \<Rightarrow> string" where
  "decodeInTests s = s"

definition decodePlus :: "string \<Rightarrow> string" where
  "decodePlus s = map (\<lambda>c. if c = CHR ''+'' then CHR '' '' else c) s"

section \<open>Properties of the session key\<close>

text \<open>
  C7.  The conversation key is the literal "global" when the scope is global; otherwise it
  is the normalized form of the sender address, and the literal "unknown" when the sender is
  absent, empty, or normalizes to the empty string.
\<close>

theorem deriveSessionKey_cases:
  "(sc = Global \<longrightarrow> deriveSessionKey nrm sc ctx = ''global'') \<and>
   (sc = PerSender \<and> (From ctx = None \<or> From ctx = Some '''') \<longrightarrow>
      deriveSessionKey nrm sc ctx = ''unknown'') \<and>
   (sc = PerSender \<and> From ctx = Some f \<and> f \<noteq> '''' \<and> nrm f = '''' \<longrightarrow>
      deriveSessionKey nrm sc ctx = ''unknown'') \<and>
   (sc = PerSender \<and> From ctx = Some f \<and> f \<noteq> '''' \<and> nrm f \<noteq> '''' \<longrightarrow>
      deriveSessionKey nrm sc ctx = nrm f)"
  by (auto simp: deriveSessionKey_def Let_def)

text \<open>
  The four cases at concrete contexts, with a normalizer that keeps \<open>+\<close> and the digits
  and gives the empty string when nothing is left.
\<close>

theorem deriveSessionKey_cases_witness:
  "deriveSessionKey (filter (\<lambda>c. c \<in> set ''+0123456789'')) Global
      \<lparr>Body = ''hi'', From = Some ''+1555'', To = None, MediaPath = None, MediaUrl = None,
       MediaType = None, MessageId = None\<rparr> = ''global'' \<and>
   deriveSessionKey (filter (\<lambda>c. c \<in> set ''+0123456789'')) PerSender
      \<lparr>Body = ''hi'', From = None, To = None, MediaPath = None, MediaUrl = None,
       MediaType = None, MessageId = None\<rparr> = ''unknown'' \<and>
   deriveSessionKey (filter (\<lambda>c. c \<in> set ''+0123456789'')) PerSender
      \<lparr>Body = ''hi'', From = Some ''abc'', To = None, MediaPath = None, MediaUrl = None,
       MediaType = None, MessageId = None\<rparr> = ''unknown'' \<and>
   deriveSessionKey (filter (\<lambda>c. c \<in> set ''+0123456789'')) PerSender
      \<lparr>Body = ''hi'', From = Some ''+1 555'', To = None, MediaPath = None, MediaUrl = None,
       MediaType = None, MessageId = None\<rparr> = ''+1555''"
  using
    deriveSessionKey_cases [of Global "filter (\<lambda>c. c \<in> set ''+0123456789'')"
      "\<lparr>Body = ''hi'', From = Some ''+1555'', To = None, MediaPath = None, MediaUrl = None,
       MediaType = None, MessageId = None\<rparr>" "''+1555''"]
    deriveSessionKey_cases [of PerSender "filter (\<lambda>c. c \<in> set ''+0123456789'')"
      "\<lparr>Body = ''hi'', From = None, To = None, MediaPath = None, MediaUrl = None,
       MediaType = None, MessageId = None\<rparr>" "''x''"]
    deriveSessionKey_cases [of PerSender "filter (\<lambda>c. c \<in> set ''+0123456789'')"
      "\<lparr>Body = ''hi'', From = Some ''abc'', To = None, MediaPath = None, MediaUrl = None,
       MediaType = None, MessageId = None\<rparr>" "''abc''"]
    deriveSessionKey_cases [of PerSender "filter (\<lambda>c. c \<in> set ''+0123456789'')"
      "\<lparr>Body = ''hi'', From = Some ''+1 555'', To = None, MediaPath = None, MediaUrl = None,
       MediaType = None, MessageId = None\<rparr>" "''+1 555''"]
  by simp

section \<open>Properties of the session store\<close>

text \<open>
  What \<^verbatim>\<open>loadSessionStore\<close> returns in each state of the file.  It never raises.  It
  gives the empty mapping when the file cannot be read, when its text does not parse, and
  when the parsed value is \<^verbatim>\<open>null\<close> or not of type object for \<^verbatim>\<open>typeof\<close>.  A parsed
  object is returned as it is, and so is a parsed array.
\<close>

lemma loadSessionStore_cases:
  "(readFileSync p = Inl e \<longrightarrow> loadSessionStore readFileSync parse p = JObj []) \<and>
   (readFileSync p = Inr raw \<and> parse raw = Inl e \<longrightarrow>
      loadSessionStore readFileSync parse p = JObj []) \<and>
   (readFileSync p = Inr raw \<and> parse raw = Inr v \<and> (v = JNull \<or> js_typeof v \<noteq> ''object'') \<longrightarrow>
      loadSessionStore readFileSync parse p = JObj []) \<and>
   (readFileSync p = Inr raw \<and> parse raw = Inr (JObj kvs) \<longrightarrow>
      loadSessionStore readFileSync parse p = JObj kvs) \<and>
   (readFileSync p = Inr raw \<and> parse raw = Inr (JArr xs) \<longrightarrow>
      loadSessionStore readFileSync parse p = JArr xs)"
  by (auto simp: loadSessionStore_def)

text \<open>
  A missing file, a file that does not parse, a file holding a string, and a file holding
  one session entry.
\<close>

lemma loadSessionStore_cases_examples:
  "loadSessionStore (\<lambda>p. Inl ENOENT) (\<lambda>raw. Inl SyntaxError) ''sessions.json'' = JObj [] \<and>
   loadSessionStore (\<lambda>p. Inr ''{'') (\<lambda>raw. Inl SyntaxError) ''sessions.json'' = JObj [] \<and>
   loadSessionStore (\<lambda>p. Inr ''\"x\"'') (\<lambda>raw. Inr (JStr ''x'')) ''sessions.json'' = JObj [] \<and>
   loadSessionStore (\<lambda>p. Inr ''{\"+1555\":{\"sessionId\":\"s\",\"updatedAt\":1}}'')
     (\<lambda>raw. Inr (JObj [(''+1555'',
        JObj [(''sessionId'', JStr ''s''), (''updatedAt'', JNum (Finite 1))])]))
     ''sessions.json'' =
   JObj [(''+1555'', JObj [(''sessionId'', JStr ''s''), (''updatedAt'', JNum (Finite 1))])]"
  using
    loadSessionStore_cases [of "\<lambda>p. Inl ENOENT" "''sessions.json''" ENOENT
      "\<lambda>raw. Inl SyntaxError" "''''" JNull "[]" "[]"]
    loadSessionStore_cases [of "\<lambda>p. Inr ''{''" "''sessions.json''" SyntaxError
      "\<lambda>raw. Inl SyntaxError" "''{''" JNull "[]" "[]"]
    loadSessionStore_cases [of "\<lambda>p. Inr ''\"x\"''" "''sessions.json''" SyntaxError
      "\<lambda>raw. Inr (JStr ''x'')" "''\"x\"''" "JStr ''x''" "[]" "[]"]
    loadSessionStore_cases [of
      "\<lambda>p. Inr ''{\"+1555\":{\"sessionId\":\"s\",\"updatedAt\":1}}''" "''sessions.json''"
      SyntaxError
      "\<lambda>raw. Inr (JObj [(''+1555'',
         JObj [(''sessionId'', JStr ''s''), (''updatedAt'', JNum (Finite 1))])])"
      "''{\"+1555\":{\"sessionId\":\"s\",\"updatedAt\":1}}''" JNull
      "[(''+1555'', JObj [(''sessionId'', JStr ''s''), (''updatedAt'', JNum (Finite 1))])]" "[]"]
  by simp

text \<open>
  C8.  A corrupt store file is to load as the empty mapping.  A store file that holds the
  array \<^verbatim>\<open>[1]\<close> is not a JSON object, yet what \<^verbatim>\<open>loadSessionStore\<close> returns for it is
  the array and not the empty mapping: the guard \<^verbatim>\<open>typeof parsed === "object"\<close> is true
  of an array.
\<close>

theorem loadSessionStore_array_counterexample:
  "loadSessionStore
     (\<lambda>p. if p = ''sessions.json'' then Inr ''[1]'' else Inl ENOENT)
     (\<lambda>raw. if raw = ''[1]'' then Inr (JArr [JNum (Finite 1)]) else Inl SyntaxError)
     ''sessions.json'' = JArr [JNum (Finite 1)] \<and>
   JArr [JNum (Finite 1)] \<noteq> JObj []"
  by (simp add: loadSessionStore_def)

section \<open>Properties of the configuration\<close>

text \<open>
  C9 (amended).  Every reply configuration that \<^verbatim>\<open>ReplySchema\<close> accepts has the field
  its mode requires: a non-empty \<open>text\<close> when the mode is text, a \<open>command\<close> list when the
  mode is command.  Nothing is said of the other field.
\<close>

theorem ReplySchema_required_field:
  assumes "ReplySchema zodThree v = Some cfg"
  shows "(mode cfg = ModeText \<longrightarrow> ReplyConfig.text cfg \<noteq> None \<and> ReplyConfig.text cfg \<noteq> Some '''') \<and>
         (mode cfg = ModeCommand \<longrightarrow> command cfg \<noteq> None)"
  using assms by (auto simp: ReplySchema_def refineReply_def split: option.splits if_splits)

theorem ReplySchema_required_field_witness:
  "ReplySchema False
     (JObj [(''mode'', JStr ''command''), (''command'', JArr [JStr ''echo'', JStr ''{{Body}}''])]) =
   Some \<lparr>mode = ModeCommand, ReplyConfig.text = None, command = Some [''echo'', ''{{Body}}''], cwd = None,
     template = None, timeoutSeconds = None, bodyPrefix = None, ReplyConfig.mediaUrl = None, session = None,
     claudeOutputFormat = None, mediaMaxMb = None\<rparr> \<and>
   command \<lparr>mode = ModeCommand, ReplyConfig.text = None, command = Some [''echo'', ''{{Body}}''], cwd = None,
     template = None, timeoutSeconds = None, bodyPrefix = None, ReplyConfig.mediaUrl = None, session = None,
     claudeOutputFormat = None, mediaMaxMb = None\<rparr> \<noteq> None"
proof -
  have h: "ReplySchema False
     (JObj [(''mode'', JStr ''command''), (''command'', JArr [JStr ''echo'', JStr ''{{Body}}''])]) =
   Some \<lparr>mode = ModeCommand, ReplyConfig.text = None, command = Some [''echo'', ''{{Body}}''], cwd = None,
     template = None, timeoutSeconds = None, bodyPrefix = None, ReplyConfig.mediaUrl = None, session = None,
     claudeOutputFormat = None, mediaMaxMb = None\<rparr>"
    by (simp add: ReplySchema_def refineReply_def z_optional_def)
  from ReplySchema_required_field [OF h] h show ?thesis by simp
qed

text \<open>
  An accepted reply configuration in which both \<open>text\<close> and \<open>command\<close> are populated:
  the refinement looks only at the field of the declared mode.
\<close>

theorem ReplySchema_both_counterexample:
  "ReplySchema False
     (JObj [(''mode'', JStr ''text''), (''text'', JStr ''hi''), (''command'', JArr [JStr ''echo''])]) =
   Some \<lparr>mode = ModeText, ReplyConfig.text = Some ''hi'', command = Some [''echo''], cwd = None, template = None,
     timeoutSeconds = None, bodyPrefix = None, ReplyConfig.mediaUrl = None, session = None,
     claudeOutputFormat = None, mediaMaxMb = None\<rparr>"
  by (simp add: ReplySchema_def refineReply_def z_optional_def)

lemma WarelaySchema_object:
  "WarelaySchema zodThree v = Some data \<Longrightarrow> js_typeof v = ''object'' \<and> v \<noteq> JNull"
  by (cases v) simp_all

lemma loadConfig_missing:
  "\<not> existsSync path \<Longrightarrow> loadConfig zodThree path existsSync readFileSync parse = emptyConfig"
  by (simp add: loadConfig_def)

lemma loadConfig_unreadable:
  "readFileSync path = Inl e \<Longrightarrow>
   loadConfig zodThree path existsSync readFileSync parse = emptyConfig"
  by (simp add: loadConfig_def)

lemma loadConfig_unparseable:
  "readFileSync path = Inr raw \<Longrightarrow> parse raw = Inl e \<Longrightarrow>
   loadConfig zodThree path existsSync readFileSync parse = emptyConfig"
  by (simp add: loadConfig_def)

lemma loadConfig_not_object:
  "readFileSync path = Inr raw \<Longrightarrow> parse raw = Inr v \<Longrightarrow> js_typeof v \<noteq> ''object'' \<or> v = JNull \<Longrightarrow>
   loadConfig zodThree path existsSync readFileSync parse = emptyConfig"
  by (simp add: loadConfig_def)

lemma loadConfig_invalid:
  "readFileSync path = Inr raw \<Longrightarrow> parse raw = Inr v \<Longrightarrow> WarelaySchema zodThree v = None \<Longrightarrow>
   loadConfig zodThree path existsSync readFileSync parse = emptyConfig"
  by (simp add: loadConfig_def)

lemma loadConfig_valid:
  assumes "existsSync path" "readFileSync path = Inr raw" "parse raw = Inr v"
    "WarelaySchema zodThree v = Some data"
  shows "loadConfig zodThree path existsSync readFileSync parse = data"
  using assms WarelaySchema_object [OF assms(4)] by (simp add: loadConfig_def)

lemma loadConfig_nonempty:
  assumes "loadConfig zodThree path existsSync readFileSync parse \<noteq> emptyConfig"
  shows "existsSync path \<and>
      (\<exists>raw' v'. readFileSync path = Inr raw' \<and> parse raw' = Inr v' \<and>
         WarelaySchema zodThree v' =
           Some (loadConfig zodThree path existsSync readFileSync parse))"
proof -
  have ex: "existsSync path"
    using assms loadConfig_missing by blast
  obtain raw' where r: "readFileSync path = Inr raw'"
    using assms loadConfig_unreadable by (cases "readFileSync path") blast+
  obtain v' where p: "parse raw' = Inr v'"
    using assms r loadConfig_unparseable by (cases "parse raw'") blast+
  obtain d where w: "WarelaySchema zodThree v' = Some d"
    using assms r p loadConfig_invalid by (cases "WarelaySchema zodThree v'") blast+
  have "loadConfig zodThree path existsSync readFileSync parse = d"
    using ex r p w by (rule loadConfig_valid)
  with ex r p w show ?thesis by blast
qed


text \<open>
  C10.  \<^verbatim>\<open>loadConfig\<close> returns a configuration in every state of the file: the empty one
  when the file is missing, unreadable, unparseable, parsed to a value that is not an object
  or is \<^verbatim>\<open>null\<close>, or refused by the schema; and the validated data when the schema
  accepts the parsed value.  A non-empty result comes only from a file that exists, reads,
  parses and validates.
\<close>

theorem loadConfig_total:
  "(\<not> existsSync path \<longrightarrow>
      loadConfig zodThree path existsSync readFileSync parse = emptyConfig) \<and>
   (readFileSync path = Inl e \<longrightarrow>
      loadConfig zodThree path existsSync readFileSync parse = emptyConfig) \<and>
   (readFileSync path = Inr raw \<and> parse raw = Inl e \<longrightarrow>
      loadConfig zodThree path existsSync readFileSync parse = emptyConfig) \<and>
   (readFileSync path = Inr raw \<and> parse raw = Inr v \<and> (js_typeof v \<noteq> ''object'' \<or> v = JNull) \<longrightarrow>
      loadConfig zodThree path existsSync readFileSync parse = emptyConfig) \<and>
   (readFileSync path = Inr raw \<and> parse raw = Inr v \<and> WarelaySchema zodThree v = None \<longrightarrow>
      loadConfig zodThree path existsSync readFileSync parse = emptyConfig) \<and>
   (existsSync path \<and> readFileSync path = Inr raw \<and> parse raw = Inr v \<and>
      WarelaySchema zodThree v = Some data \<longrightarrow>
      loadConfig zodThree path existsSync readFileSync parse = data) \<and>
   (loadConfig zodThree path existsSync readFileSync parse \<noteq> emptyConfig \<longrightarrow>
      existsSync path \<and>
      (\<exists>raw' v'. readFileSync path = Inr raw' \<and> parse raw' = Inr v' \<and>
         WarelaySchema zodThree v' =
           Some (loadConfig zodThree path existsSync readFileSync parse)))"
proof (intro conjI impI)
  assume "\<not> existsSync path"
  then show "loadConfig zodThree path existsSync readFileSync parse = emptyConfig"
    by (rule loadConfig_missing)
next
  assume "readFileSync path = Inl e"
  then show "loadConfig zodThree path existsSync readFileSync parse = emptyConfig"
    by (rule loadConfig_unreadable)
next
  assume a: "readFileSync path = Inr raw \<and> parse raw = Inl e"
  from conjunct1 [OF a] conjunct2 [OF a]
  show "loadConfig zodThree path existsSync readFileSync parse = emptyConfig"
    by (rule loadConfig_unparseable)
next
  assume a: "readFileSync path = Inr raw \<and> parse raw = Inr v \<and> (js_typeof v \<noteq> ''object'' \<or> v = JNull)"
  then have "readFileSync path = Inr raw" "parse raw = Inr v" "js_typeof v \<noteq> ''object'' \<or> v = JNull"
    by simp_all
  then show "loadConfig zodThree path existsSync readFileSync parse = emptyConfig"
    by (rule loadConfig_not_object)
next
  assume a: "readFileSync path = Inr raw \<and> parse raw = Inr v \<and> WarelaySchema zodThree v = None"
  then have "readFileSync path = Inr raw" "parse raw = Inr v" "WarelaySchema zodThree v = None"
    by simp_all
  then show "loadConfig zodThree path existsSync readFileSync parse = emptyConfig"
    by (rule loadConfig_invalid)
next
  assume a: "existsSync path \<and> readFileSync path = Inr raw \<and> parse raw = Inr v \<and>
      WarelaySchema zodThree v = Some data"
  then have "existsSync path" "readFileSync path = Inr raw" "parse raw = Inr v"
    "WarelaySchema zodThree v = Some data"
    by simp_all
  then show "loadConfig zodThree path existsSync readFileSync parse = data"
    by (rule loadConfig_valid)
next
  assume a: "loadConfig zodThree path existsSync readFileSync parse \<noteq> emptyConfig"
  from loadConfig_nonempty [OF a] show "existsSync path" by (rule conjunct1)
next
  assume a: "loadConfig zodThree path existsSync readFileSync parse \<noteq> emptyConfig"
  from loadConfig_nonempty [OF a]
  show "\<exists>raw' v'. readFileSync path = Inr raw' \<and> parse raw' = Inr v' \<and>
         WarelaySchema zodThree v' =
           Some (loadConfig zodThree path existsSync readFileSync parse)"
    by (rule conjunct2)
qed



text \<open>
  The states of the file one by one: no file, a file that cannot be read, text that does
  not parse, a parsed number, a reply of mode text without its text, and a valid file.
\<close>

theorem loadConfig_total_witness:
  "loadConfig False ''warelay.json'' (\<lambda>p. False) (\<lambda>p. Inl ENOENT) (\<lambda>r. Inl SyntaxError) =
     emptyConfig \<and>
   loadConfig False ''warelay.json'' (\<lambda>p. True) (\<lambda>p. Inl EACCES) (\<lambda>r. Inl SyntaxError) =
     emptyConfig \<and>
   loadConfig False ''warelay.json'' (\<lambda>p. True) (\<lambda>p. Inr ''{'') (\<lambda>r. Inl SyntaxError) =
     emptyConfig \<and>
   loadConfig False ''warelay.json'' (\<lambda>p. True) (\<lambda>p. Inr ''42'') (\<lambda>r. Inr (JNum (Finite 42))) =
     emptyConfig \<and>
   loadConfig False ''warelay.json'' (\<lambda>p. True) (\<lambda>p. Inr ''{inbound:{reply:{mode:\"text\"}}}'')
     (\<lambda>r. Inr (JObj [(''inbound'', JObj [(''reply'', JObj [(''mode'', JStr ''text'')])])])) =
     emptyConfig \<and>
   loadConfig False ''warelay.json'' (\<lambda>p. True) (\<lambda>p. Inr ''{logging:{level:\"info\"}}'')
     (\<lambda>r. Inr (JObj [(''logging'', JObj [(''level'', JStr ''info'')])])) =
     \<lparr>logging = Some \<lparr>level = Some Info, file = None\<rparr>, inbound = None\<rparr> \<and>
   \<lparr>logging = Some \<lparr>level = Some Info, file = None\<rparr>, inbound = None\<rparr> \<noteq> emptyConfig"
proof -
  have refused: "WarelaySchema False
      (JObj [(''inbound'', JObj [(''reply'', JObj [(''mode'', JStr ''text'')])])]) = None"
    by (simp add: ReplySchema_def refineReply_def z_optional_def)
  have accepted: "WarelaySchema False (JObj [(''logging'', JObj [(''level'', JStr ''info'')])]) =
      Some \<lparr>logging = Some \<lparr>level = Some Info, file = None\<rparr>, inbound = None\<rparr>"
    by (simp add: z_optional_def)
  have c1: "loadConfig False ''warelay.json'' (\<lambda>p. False) (\<lambda>p. Inl ENOENT)
      (\<lambda>r. Inl SyntaxError) = emptyConfig"
    using loadConfig_total [where existsSync = "\<lambda>p. False" and path = "''warelay.json''"
        and zodThree = False and readFileSync = "\<lambda>p. Inl ENOENT"
        and parse = "\<lambda>r. Inl SyntaxError" and e = ENOENT and raw = "''''" and v = JNull
        and data = emptyConfig,
        THEN conjunct1]
    by simp
  have c2: "loadConfig False ''warelay.json'' (\<lambda>p. True) (\<lambda>p. Inl EACCES)
      (\<lambda>r. Inl SyntaxError) = emptyConfig"
    using loadConfig_total [where existsSync = "\<lambda>p. True" and path = "''warelay.json''"
        and zodThree = False and readFileSync = "\<lambda>p. Inl EACCES"
        and parse = "\<lambda>r. Inl SyntaxError" and e = EACCES and raw = "''''" and v = JNull
        and data = emptyConfig,
        THEN conjunct2, THEN conjunct1]
    by simp
  have c3: "loadConfig False ''warelay.json'' (\<lambda>p. True) (\<lambda>p. Inr ''{'')
      (\<lambda>r. Inl SyntaxError) = emptyConfig"
    using loadConfig_total [where existsSync = "\<lambda>p. True" and path = "''warelay.json''"
        and zodThree = False and readFileSync = "\<lambda>p. Inr ''{''"
        and parse = "\<lambda>r. Inl SyntaxError" and e = SyntaxError and raw = "''{''" and v = JNull
        and data = emptyConfig,
        THEN conjunct2, THEN conjunct2, THEN conjunct1]
    by simp
  have c4: "loadConfig False ''warelay.json'' (\<lambda>p. True) (\<lambda>p. Inr ''42'')
      (\<lambda>r. Inr (JNum (Finite 42))) = emptyConfig"
    using loadConfig_total [where existsSync = "\<lambda>p. True" and path = "''warelay.json''"
        and zodThree = False and readFileSync = "\<lambda>p. Inr ''42''"
        and parse = "\<lambda>r. Inr (JNum (Finite 42))" and raw = "''42''"
        and v = "JNum (Finite 42)" and e = SyntaxError and data = emptyConfig,
        THEN conjunct2, THEN conjunct2, THEN conjunct2, THEN conjunct1]
    by simp
  have c5: "loadConfig False ''warelay.json'' (\<lambda>p. True)
      (\<lambda>p. Inr ''{inbound:{reply:{mode:\"text\"}}}'')
      (\<lambda>r. Inr (JObj [(''inbound'', JObj [(''reply'', JObj [(''mode'', JStr ''text'')])])])) =
      emptyConfig"
    using loadConfig_total [where existsSync = "\<lambda>p. True" and path = "''warelay.json''"
        and zodThree = False and readFileSync = "\<lambda>p. Inr ''{inbound:{reply:{mode:\"text\"}}}''"
        and parse = "\<lambda>r. Inr (JObj [(''inbound'',
          JObj [(''reply'', JObj [(''mode'', JStr ''text'')])])])"
        and raw = "''{inbound:{reply:{mode:\"text\"}}}''"
        and v = "JObj [(''inbound'', JObj [(''reply'', JObj [(''mode'', JStr ''text'')])])]"
        and e = SyntaxError and data = emptyConfig,
        THEN conjunct2, THEN conjunct2, THEN conjunct2, THEN conjunct2, THEN conjunct1]
      refused
    by simp
  have c6: "loadConfig False ''warelay.json'' (\<lambda>p. True)
      (\<lambda>p. Inr ''{logging:{level:\"info\"}}'')
      (\<lambda>r. Inr (JObj [(''logging'', JObj [(''level'', JStr ''info'')])])) =
      \<lparr>logging = Some \<lparr>level = Some Info, file = None\<rparr>, inbound = None\<rparr>"
    using loadConfig_total [where existsSync = "\<lambda>p. True" and path = "''warelay.json''"
        and zodThree = False and readFileSync = "\<lambda>p. Inr ''{logging:{level:\"info\"}}''"
        and parse = "\<lambda>r. Inr (JObj [(''logging'', JObj [(''level'', JStr ''info'')])])"
        and raw = "''{logging:{level:\"info\"}}''"
        and v = "JObj [(''logging'', JObj [(''level'', JStr ''info'')])]"
        and data = "\<lparr>logging = Some \<lparr>level = Some Info, file = None\<rparr>, inbound = None\<rparr>"
        and e = SyntaxError,
        THEN conjunct2, THEN conjunct2, THEN conjunct2, THEN conjunct2, THEN conjunct2, THEN conjunct1]
      accepted
    by simp
  have c7: "\<lparr>logging = Some \<lparr>level = Some Info, file = None\<rparr>, inbound = None\<rparr> \<noteq> emptyConfig"
    by (simp add: emptyConfig_def)
  from c1 c2 c3 c4 c5 c6 c7 show ?thesis by (intro conjI)
qed

text \<open>
  Under version 4 of zod an integer above the largest safe integer is refused, and a
  configuration file with such a timeout loads as the empty configuration.
\<close>

lemma z_number_int_positive_bound:
  "z_number_int_positive False (JNum (Finite 9007199254740991)) = Some 9007199254740991"
  "z_number_int_positive False (JNum (Finite 9007199254740992)) = None"
  "z_number_int_positive True (JNum (Finite 9007199254740992)) = Some 9007199254740992"
  "z_number_int_positive zodThree (JNum (Finite 0)) = None"
  by (simp_all add: MAX_SAFE_INTEGER_def)

lemma loadConfig_too_big:
  "loadConfig False ''warelay.json'' (\<lambda>p. True) (\<lambda>p. Inr ''big'')
     (\<lambda>r. Inr (JObj [(''inbound'', JObj [(''reply'', JObj [(''mode'', JStr ''command''),
        (''command'', JArr [JStr ''echo'']),
        (''timeoutSeconds'', JNum (Finite 9007199254740992))])])])) = emptyConfig"
  by (simp add: loadConfig_def ReplySchema_def z_optional_def MAX_SAFE_INTEGER_def)

section \<open>Properties of the media token extractor\<close>



lemma find_media_skip:
  assumes "\<forall>i<length A. media_at plausible decode (drop i (A @ s)) = None"
  shows "find_media plausible decode (A @ s) =
     map_option (\<lambda>(before, url, rest). (A @ before, url, rest)) (find_media plausible decode s)"
  using assms
proof (induction A)
  case Nil
  show ?case by (simp add: option.map_ident case_prod_unfold)
next
  case (Cons a A)
  from Cons.prems have h: "media_at plausible decode ((a # A) @ s) = None"
    by (metis drop0 length_greater_0_conv list.distinct(1))
  have "\<forall>i<length A. media_at plausible decode (drop i (A @ s)) = None"
  proof (intro allI impI)
    fix i assume "i < length A"
    then have "Suc i < length (a # A)" by simp
    with Cons.prems have "media_at plausible decode (drop (Suc i) ((a # A) @ s)) = None"
      by blast
    then show "media_at plausible decode (drop i (A @ s)) = None" by simp
  qed
  from Cons.IH [OF this] h show ?case
    by (simp add: option.map_comp comp_def case_prod_unfold)
qed

lemma find_media_None:
  assumes "\<forall>i<length raw. media_at plausible decode (drop i raw) = None"
  shows "find_media plausible decode raw = None"
  using find_media_skip [of raw plausible decode "[]"] assms by simp






lemma split_lines_nonempty: "split_lines xs \<noteq> []"
  by (induction xs) (auto split: list.splits)

lemma split_lines_append:
  "split_lines (xs @ NL # ys) = split_lines xs @ split_lines ys"
proof (induction xs)
  case Nil
  show ?case by simp
next
  case (Cons x xs)
  obtain l ls where s: "split_lines xs = l # ls"
    using split_lines_nonempty [of xs] by (cases "split_lines xs") auto
  show ?case using Cons.IH by (simp add: s)
qed

lemma split_lines_single: "NL \<notin> set line \<Longrightarrow> split_lines line = [line]"
  by (induction line) auto

lemma join_lines_append:
  "ls1 \<noteq> [] \<Longrightarrow> ls2 \<noteq> [] \<Longrightarrow> join_lines (ls1 @ ls2) = join_lines ls1 @ NL # join_lines ls2"
proof (induction ls1 rule: join_lines.induct)
  case 1
  then show ?case by simp
next
  case (2 l)
  then show ?case by (cases ls2) simp_all
next
  case (3 l v va)
  then show ?case by simp
qed

lemma join_split_lines: "join_lines (split_lines xs) = xs"
proof (induction xs)
  case Nil
  show ?case by simp
next
  case (Cons x xs)
  obtain l ls where s: "split_lines xs = l # ls"
    using split_lines_nonempty [of xs] by (cases "split_lines xs") auto
  show ?case
  proof (cases "x = NL")
    case True
    then show ?thesis using Cons.IH by (simp add: s)
  next
    case False
    then show ?thesis using Cons.IH by (cases ls) (simp_all add: s)
  qed
qed

lemma split_lines_sublist: "l \<in> set (split_lines xs) \<Longrightarrow> sublist l xs"
proof (induction xs arbitrary: l)
  case Nil
  then show ?case by simp
next
  case (Cons x xs)
  obtain k ks where s: "split_lines xs = k # ks"
    using split_lines_nonempty [of xs] by (cases "split_lines xs") auto
  show ?case
  proof (cases "x = NL")
    case True
    with Cons.prems have "l = [] \<or> l \<in> set (split_lines xs)" by auto
    then show ?thesis using Cons.IH by (auto simp: sublist_Cons_right)
  next
    case False
    with Cons.prems s have "l = x # k \<or> l \<in> set ks" by auto
    then show ?thesis
    proof
      assume l: "l = x # k"
      have "prefix k xs"
      proof -
        have "join_lines (k # ks) = xs" using join_split_lines [of xs] s by simp
        then show ?thesis by (cases ks) (auto simp: prefix_def)
      qed
      then show ?thesis using l by (simp add: sublist_Cons_right)
    next
      assume "l \<in> set ks"
      then have "l \<in> set (split_lines xs)" using s by simp
      then show ?thesis using Cons.IH by (simp add: sublist_Cons_right)
    qed
  qed
qed

lemma filter_marker_free:
  assumes "\<not> sublist m xs"
  shows "filter (\<lambda>l. \<not> sublist m l) (split_lines xs) = split_lines xs"
proof -
  have "\<not> sublist m l" if "l \<in> set (split_lines xs)" for l
  proof
    assume "sublist m l"
    then have "sublist m xs"
      using split_lines_sublist [OF that] by (rule sublist_order.order_trans)
    with assms show False by simp
  qed
  then show ?thesis by (simp add: filter_id_conv)
qed

text \<open>
  A line of its own that holds a marker leaves the text, and the text around it stays as it
  is, when it holds no marker.
\<close>

lemma drop_marker_line:
  assumes "\<not> sublist m before" "\<not> sublist m after" "sublist m line" "NL \<notin> set line"
  shows "join_lines (filter (\<lambda>l. \<not> sublist m l) (split_lines (before @ NL # line @ NL # after))) =
     before @ NL # after"
proof -
  have "split_lines (before @ NL # line @ NL # after) =
      split_lines before @ [line] @ split_lines after"
    by (simp add: split_lines_append split_lines_single [OF assms(4)])
  then have "filter (\<lambda>l. \<not> sublist m l) (split_lines (before @ NL # line @ NL # after)) =
      split_lines before @ split_lines after"
    using assms(3) by (simp add: filter_marker_free [OF assms(1)] filter_marker_free [OF assms(2)])
  then show ?thesis
    by (simp add: join_lines_append split_lines_nonempty join_split_lines)
qed



lemma splitMedia_invalid_line:
  assumes "\<forall>i<length (before @ NL # line @ NL # after).
      media_at plausible decode (drop i (before @ NL # line @ NL # after)) = None"
    and "\<not> sublist MEDIA_MARKER before" "\<not> sublist MEDIA_MARKER after"
    and "sublist MEDIA_MARKER line" "NL \<notin> set line"
  shows "splitMediaFromOutput plausible decode (before @ NL # line @ NL # after) =
     \<lparr>text = collapse (before @ NL # after), mediaUrl = None\<rparr>"
proof -
  have "find_media plausible decode (before @ NL # line @ NL # after) = None"
    using assms(1) by (rule find_media_None)
  moreover have "sublist MEDIA_MARKER (before @ NL # line @ NL # after)"
  proof -
    have e: "before @ NL # line @ NL # after = (before @ [NL]) @ line @ (NL # after)"
      by simp
    have "sublist line (before @ NL # line @ NL # after)"
      unfolding e by (rule sublist_appendI)
    with assms(4) show ?thesis by (rule sublist_order.order_trans)
  qed
  ultimately show ?thesis
    by (simp add: splitMediaFromOutput_def drop_marker_line [OF assms(2,3,4,5)])
qed



text \<open>The tests of the extractor in the test file, on its model.\<close>

lemma test_media_url_from_stdout:
  "replyFromStdout plausibleInTests decodeInTests ''hello\<newline>MEDIA: https://example.com/img.jpg\<newline>'' =
     \<lparr>text = ''hello'', mediaUrl = Some ''https://example.com/img.jpg''\<rparr>"
  by code_simp

lemma test_media_trailing_text:
  "mediaUrl (replyFromStdout plausibleInTests decodeInTests
      ''hello\<newline>MEDIA:/tmp/pic.png extra words here\<newline>'') = Some ''/tmp/pic.png''"
  by code_simp

lemma test_media_inline:
  "replyFromStdout plausibleInTests decodeInTests ''caption before MEDIA:/tmp/pic.png caption after'' =
     \<lparr>text = ''caption before caption after'', mediaUrl = Some ''/tmp/pic.png''\<rparr>"
  by code_simp

lemma test_media_backticks:
  "mediaUrl (replyFromStdout plausibleInTests decodeInTests ''MEDIA:`/tmp/pic.png` cool'') =
     Some ''/tmp/pic.png''"
  by code_simp

lemma test_media_trailing_json:
  "mediaUrl (replyFromStdout plausibleInTests decodeInTests ''MEDIA:/tmp/pic.png\"} trailing'') =
     Some ''/tmp/pic.png'' \<and>
   splitMediaFromOutput plausibleInTests decodeInTests ''MEDIA:/tmp/pic.png\"}'' =
     \<lparr>text = '''', mediaUrl = Some ''/tmp/pic.png''\<rparr>"
  by code_simp

lemma test_media_invalid:
  "replyFromStdout plausibleInTests decodeInTests
      ''hello\<newline>MEDIA: not a url with spaces\<newline>rest\<newline>'' =
     \<lparr>text = ''hello\<newline>rest'', mediaUrl = None\<rparr>"
  by code_simp

lemma test_media_split:
  "splitMediaFromOutput plausibleInTests decodeInTests ''line1\<newline>MEDIA:https://x/y.png\<newline>line2'' =
     \<lparr>text = ''line1\<newline>line2'', mediaUrl = Some ''https://x/y.png''\<rparr>"
  by code_simp

lemma test_decode_plus:
  "splitMediaFromOutput plausibleInTests decodePlus ''hello\<newline>MEDIA:/tmp/my+pic.png\<newline>rest'' =
     \<lparr>text = ''hello\<newline>rest'', mediaUrl = None\<rparr> \<and>
   media_candidate decodePlus ''/tmp/my+pic.png\<newline>rest'' = ''/tmp/my pic.png''"
  by code_simp

section \<open>Properties of the timeout reply\<close>

text \<open>
  C1.  On a timeout the text is the sentence "Command timed out after Ns. Try a shorter
  prompt or split the request." with N the configured number of seconds, 600 when none is
  configured.  When partial output was captured, the line "Partial output before timeout:"
  and a line with the first 800 characters of the partial output and three dots follow.  No
  attachment is produced.  The full partial output is never used: whatever comes after its
  first 800 characters changes nothing in the reply.
\<close>

theorem timeoutReply_text:
  "text (timeoutReply cfg partial) =
     ''Command timed out after '' @
     show_int (case timeoutSeconds cfg of None \<Rightarrow> 600 | Some n \<Rightarrow> n) @
     ''s. Try a shorter prompt or split the request.'' @
     (if partial = [] then []
      else ''\<newline>Partial output before timeout:\<newline>'' @ take 800 partial @ ''...'') \<and>
   mediaUrl (timeoutReply cfg partial) = None \<and>
   (800 \<le> length partial \<longrightarrow> timeoutReply cfg (partial @ tail) = timeoutReply cfg partial)"
proof -
  have "partial \<noteq> []" if "800 \<le> length partial"
    using that by auto
  then show ?thesis
    by (auto simp: timeoutReply_def timeoutBase_def replyTimeoutSeconds_def
        DEFAULT_TIMEOUT_SECONDS_def NL_def split: option.splits)
qed

text \<open>
  The two timeout tests of the test file, no partial output and 900 times \<open>x\<close> with 42
  seconds, and a configuration without a timeout.
\<close>

theorem timeoutReply_text_witness:
  "text (timeoutReply timeoutTestConfig '''') =
     ''Command timed out after 42s. Try a shorter prompt or split the request.'' \<and>
   text (timeoutReply timeoutTestConfig (replicate 900 (CHR ''x''))) =
     ''Command timed out after 42s. Try a shorter prompt or split the request.'' @
     ''\<newline>Partial output before timeout:\<newline>'' @ replicate 800 (CHR ''x'') @ ''...'' \<and>
   text (timeoutReply (timeoutTestConfig\<lparr>timeoutSeconds := None\<rparr>) '''') =
     ''Command timed out after 600s. Try a shorter prompt or split the request.'' \<and>
   timeoutReply timeoutTestConfig (replicate 800 (CHR ''x'') @ ''the rest'') =
     timeoutReply timeoutTestConfig (replicate 800 (CHR ''x''))"
proof -
  have n42: "show_int (case timeoutSeconds timeoutTestConfig of None \<Rightarrow> 600 | Some n \<Rightarrow> n) = ''42''"
    by code_simp
  have n600: "show_int (case timeoutSeconds (timeoutTestConfig\<lparr>timeoutSeconds := None\<rparr>) of
      None \<Rightarrow> 600 | Some n \<Rightarrow> n) = ''600''"
    by code_simp
  have a: "text (timeoutReply timeoutTestConfig '''') =
      ''Command timed out after 42s. Try a shorter prompt or split the request.''"
    using timeoutReply_text [of timeoutTestConfig "''''" "''''", THEN conjunct1] n42 by simp
  have b: "text (timeoutReply timeoutTestConfig (replicate 900 (CHR ''x''))) =
      ''Command timed out after 42s. Try a shorter prompt or split the request.'' @
      ''\<newline>Partial output before timeout:\<newline>'' @ replicate 800 (CHR ''x'') @ ''...''"
    using timeoutReply_text [of timeoutTestConfig "replicate 900 (CHR ''x'')" "''''",
        THEN conjunct1] n42
    by simp
  have c: "text (timeoutReply (timeoutTestConfig\<lparr>timeoutSeconds := None\<rparr>) '''') =
      ''Command timed out after 600s. Try a shorter prompt or split the request.''"
    using timeoutReply_text [of "timeoutTestConfig\<lparr>timeoutSeconds := None\<rparr>" "''''" "''''",
        THEN conjunct1] n600
    by simp
  have d: "timeoutReply timeoutTestConfig (replicate 800 (CHR ''x'') @ ''the rest'') =
      timeoutReply timeoutTestConfig (replicate 800 (CHR ''x''))"
    using timeoutReply_text [of timeoutTestConfig "replicate 800 (CHR ''x'')" "''the rest''",
        THEN conjunct2, THEN conjunct2]
    by simp
  from a b c d show ?thesis by (intro conjI)
qed

lemma timeoutBase_test:
  "timeoutBase timeoutTestConfig =
     ''Command timed out after 42s. Try a shorter prompt or split the request.''"
  by code_simp

lemma sublist_count:
  "sublist xs ys \<Longrightarrow> length (filter P xs) \<le> length (filter P ys)"
  by (auto simp: sublist_def)

text \<open>
  The test with 900 times \<open>x\<close> also expects that the text does not contain the whole
  partial output: the text has only 800 of them.
\<close>

lemma test_timeout_partial_not_full:
  "\<not> sublist (replicate 900 (CHR ''x''))
      (text (timeoutReply timeoutTestConfig (replicate 900 (CHR ''x''))))"
proof
  assume "sublist (replicate 900 (CHR ''x''))
      (text (timeoutReply timeoutTestConfig (replicate 900 (CHR ''x''))))"
  from sublist_count [OF this, of "\<lambda>c. c = CHR ''x''"]
  show False by (simp add: timeoutReply_def timeoutBase_test NL_def)
qed

section \<open>Properties of the session manager and the command line\<close>








lemma insertBeforeBody_set: "set (insertBeforeBody args av) = set av \<union> set args"
proof (cases "length av \<le> 1")
  case True
  then show ?thesis by (simp add: insertBeforeBody_def)
next
  case False
  then have "av \<noteq> []" by auto
  then have "set av = set (butlast av @ [last av])" by simp
  also have "\<dots> = set (butlast av) \<union> {last av}" by simp
  finally show ?thesis using False by (auto simp: insertBeforeBody_def)
qed

lemma insertBeforeBody_hd: "av \<noteq> [] \<Longrightarrow> hd (insertBeforeBody args av) = hd av"
  by (cases av) (auto simp: insertBeforeBody_def)

lemma insertBeforeBody_last: "1 < length av \<Longrightarrow> last (insertBeforeBody args av) = last av"
  by (simp add: insertBeforeBody_def)

lemma insertBeforeBody_length: "length (insertBeforeBody args av) = length av + length args"
  by (cases "av = []") (auto simp: insertBeforeBody_def)

lemma sublist_extend_right:
  assumes "sublist xs ys"
  shows "sublist xs (ys @ zs)"
proof -
  from assms obtain ps ss where "ys = ps @ xs @ ss" by (auto simp: sublist_def)
  then have "ys @ zs = ps @ xs @ (ss @ zs)" by simp
  then show ?thesis unfolding sublist_def by blast
qed

lemma insertBeforeBody_sublist:
  "1 < length av \<Longrightarrow> sublist xs (butlast av) \<Longrightarrow> sublist xs (insertBeforeBody args av)"
  by (simp add: insertBeforeBody_def sublist_extend_right)

lemma withTemplate_hd: "av \<noteq> [] \<Longrightarrow> hd (withTemplate cfg res env av) = hd av"
  by (simp add: withTemplate_def Let_def insertBeforeBody_hd split: option.splits)

lemma withTemplate_nonempty: "av \<noteq> [] \<Longrightarrow> withTemplate cfg res env av \<noteq> []"
  by (auto simp: withTemplate_def Let_def insertBeforeBody_def split: option.splits)

lemma withTemplate_last:
  "1 < length av \<Longrightarrow> last (withTemplate cfg res env av) = last av"
  by (simp add: withTemplate_def Let_def insertBeforeBody_last split: option.splits)

lemma withTemplate_length: "length av \<le> length (withTemplate cfg res env av)"
  by (simp add: withTemplate_def Let_def insertBeforeBody_length split: option.splits)



lemma commandTurn_resolution:
  "session cfg = Some scfg \<Longrightarrow>
   resolution (commandTurn nrm identity cfg cmd st now newId ctx) =
     Some (resolveSession nrm scfg st now newId ctx)"
  by (simp add: commandTurn_def Let_def)









lemma reaches_insertBeforeBody:
  "\<exists>a \<in> set av. suffix x a \<Longrightarrow> \<exists>a \<in> set (insertBeforeBody args av). suffix x a"
  by (auto simp: insertBeforeBody_set)















text \<open>The command lines that the tests of the test file expect, on the model.\<close>

lemma test_session_first:
  "argv (commandTurn id identity sessionTestConfig [''echo'', ''{{Body}}''] Map.empty 1000
      ''session-123'' (testMessage ''/new hello'' ''+1555'' ''+1666'')) =
   [''echo'', ''[tmpl]'', ''--sid'', ''session-123'', ''hello'']"
  by code_simp

lemma test_session_second:
  "argv (commandTurn id identity sessionTestConfig [''echo'', ''{{Body}}'']
      (saved (commandTurn id identity sessionTestConfig [''echo'', ''{{Body}}''] Map.empty 1000
         ''session-123'' (testMessage ''/new hello'' ''+1555'' ''+1666'')))
      2000 ''session-456'' (testMessage ''next'' ''+1555'' ''+1666'')) =
   [''echo'', ''[tmpl]'', ''--resume'', ''session-123'', ''next'']"
  by code_simp

lemma test_system_once_first:
  "argv (commandTurn id identity systemOnceTestConfig [''echo'', ''{{Body}}''] Map.empty 1000
      ''sid-1'' (testMessage ''/new hi'' ''+1'' ''+2'')) =
   [''echo'', ''[tmpl]'', ''--sid'', ''sid-1'', ''SYS\<newline>\<newline>[pfx] hi'']"
  by code_simp

lemma test_system_once_second:
  "argv (commandTurn id identity systemOnceTestConfig [''echo'', ''{{Body}}'']
      (saved (commandTurn id identity systemOnceTestConfig [''echo'', ''{{Body}}''] Map.empty 1000
         ''sid-1'' (testMessage ''/new hi'' ''+1'' ''+2'')))
      2000 ''sid-2'' (testMessage ''next'' ''+1'' ''+2'')) =
   [''echo'', ''--resume'', ''sid-1'', ''next''] \<and>
   map_option systemSent
     (saved (commandTurn id identity systemOnceTestConfig [''echo'', ''{{Body}}''] Map.empty 1000
        ''sid-1'' (testMessage ''/new hi'' ''+1'' ''+2'')) ''+1'') = Some True"
  by code_simp

lemma test_claude_flags:
  "argv (commandTurn id identity (claudeTestConfig (Some FormatText)) [''claude'', ''{{Body}}'']
      Map.empty 1000 ''s'' (testMessage ''hi'' ''+1555'' ''+1666'')) =
   [''claude'', ''--output-format'', ''text'', ''-p'', identity @ ''\<newline>\<newline>hi'']"
  by code_simp

section \<open>Properties of the command queue\<close>

lemma queue_ok_step: "queue_ok q \<Longrightarrow> queue_ok (step e q)"
  by (cases e) (auto simp: queue_ok_def split: list.splits)

lemma run_Nil: "run [] q = q"
  by (simp add: run_def)

lemma run_Cons: "run (e # events) q = run events (step e q)"
  by (simp add: run_def)

lemma run_append: "run (xs @ ys) q = run ys (run xs q)"
  by (simp add: run_def)

lemma queue_ok_run: "queue_ok q \<Longrightarrow> queue_ok (run events q)"
  by (induction events arbitrary: q) (simp_all add: run_Nil run_Cons queue_ok_step)

lemma queue_ok_empty: "queue_ok emptyQueue"
  by (simp add: queue_ok_def emptyQueue_def)

lemma order_step: "queue_ok q \<Longrightarrow> serviceOrder (step e q) = serviceOrder q @ arrivals [e]"
  by (cases e) (auto simp: serviceOrder_def queue_ok_def split: list.splits)

lemma arrivals_Cons: "arrivals (e # events) = arrivals [e] @ arrivals events"
  by (cases e) simp_all

lemma order_run: "queue_ok q \<Longrightarrow> serviceOrder (run events q) = serviceOrder q @ arrivals events"
proof (induction events arbitrary: q)
  case Nil
  then show ?case by (simp add: run_Nil)
next
  case (Cons e events)
  have "serviceOrder (run (e # events) q) = serviceOrder (step e q) @ arrivals events"
    using Cons.IH [OF queue_ok_step [OF Cons.prems]] by (simp add: run_Cons)
  also have "\<dots> = serviceOrder q @ arrivals [e] @ arrivals events"
    using order_step [OF Cons.prems] by simp
  finally show ?case using arrivals_Cons [of e events] by simp
qed

lemma drain_idle:
  assumes "running q = []" "busy q = False"
  shows "run (concat (map (\<lambda>task. [Start, Finish (result task)]) (pending q))) q =
         q\<lparr>pending := [], settled := settled q @ map (\<lambda>task. (task, result task)) (pending q)\<rparr>"
  using assms
proof (induction "pending q" arbitrary: q)
  case Nil
  then show ?case by (simp add: run_Nil)
next
  case (Cons task rest)
  let ?q' = "step (Finish (result task)) (step Start q)"
  from Cons.hyps(2) [symmetric] Cons.prems
  have q': "?q' = q\<lparr>pending := rest, settled := settled q @ [(task, result task)]\<rparr>"
    by simp
  then have p: "rest = pending ?q'" and r: "running ?q' = []" and b: "busy ?q' = False"
    using Cons.prems by simp_all
  from Cons.hyps(1) [OF p r b] q' Cons.hyps(2) [symmetric]
  show ?case by (simp add: run_Cons)
qed

lemma drain_settles:
  assumes "queue_ok q"
  shows "run (drain result q) q =
         \<lparr>pending = [], running = [], busy = False,
          settled = settled q @ map (\<lambda>task. (task, result task)) (running q @ pending q)\<rparr>"
proof (cases "running q")
  case Nil
  with assms have b: "busy q = False" by (simp add: queue_ok_def)
  from drain_idle [OF Nil b] Nil b show ?thesis
    by (simp add: drain_def)
next
  case (Cons task rest)
  with assms have rest: "rest = []" and b: "busy q" by (simp_all add: queue_ok_def)
  let ?q' = "step (Finish (result task)) q"
  have q': "?q' = q\<lparr>running := [], busy := False, settled := settled q @ [(task, result task)]\<rparr>"
    using Cons rest by simp
  then have r: "running ?q' = []" and f: "busy ?q' = False" by simp_all
  from drain_idle [OF r f, of result] q' Cons rest show ?thesis
    by (simp add: drain_def run_Cons run_append)
qed

text \<open>
  C2.  Whatever the callers enqueue and however their requests interleave with the starts
  and the ends of tasks, at most one task is running in the state that is reached; the
  settled tasks, the running task and the waiting tasks, in this order, are the submitted
  tasks in the order of their arrival; the end of a task, whatever its outcome, leaves the
  waiting tasks as they are; and from that state the queue empties itself: the running task
  ends, each waiting task starts and ends, and every submitted task is settled, in arrival
  order, with its own outcome, also when other tasks fail or time out.
\<close>

theorem queue_serializes:
  fixes events :: "'task event list" and result :: "'task \<Rightarrow> outcome"
  defines "q \<equiv> run events emptyQueue"
  shows "length (running q) \<le> 1 \<and>
     map fst (settled q) @ running q @ pending q = arrivals events \<and>
     pending (step (Finish failure) q) = pending q \<and>
     run (drain result q) q =
       \<lparr>pending = [], running = [], busy = False,
        settled = settled q @ map (\<lambda>task. (task, result task)) (running q @ pending q)\<rparr>"
proof -
  have ok: "queue_ok q"
    unfolding q_def using queue_ok_empty by (rule queue_ok_run)
  then have one: "length (running q) \<le> 1"
    by (simp add: queue_ok_def)
  have "serviceOrder q = serviceOrder emptyQueue @ arrivals events"
    unfolding q_def using queue_ok_empty by (rule order_run)
  then have fifo: "map fst (settled q) @ running q @ pending q = arrivals events"
    by (simp add: serviceOrder_def emptyQueue_def)
  have keep: "pending (step (Finish failure) q) = pending q"
    by (simp split: list.splits)
  from one fifo keep drain_settles [OF ok] show ?thesis by simp
qed

text \<open>
  The queue test of the test file: two requests arrive while the first is running; the
  second starts only after the first has ended.  Here the first one times out.
\<close>

lemma test_queue_two_requests:
  "run [Enqueue ''first'', Start, Enqueue ''second'', Start] emptyQueue =
     \<lparr>pending = [''second''], running = [''first''], busy = True, settled = []\<rparr> \<and>
   run [Enqueue ''first'', Start, Enqueue ''second'', Start, Finish TimedOut, Start,
        Finish Completed] emptyQueue =
     \<lparr>pending = [], running = [], busy = False,
      settled = [(''first'', TimedOut), (''second'', Completed)]\<rparr>"
  by (simp add: run_def emptyQueue_def)

theorem queue_serializes_witness:
  "length (running (run [Enqueue ''first'', Start, Enqueue ''second'', Start] emptyQueue)) \<le> 1 \<and>
   map fst (settled (run [Enqueue ''first'', Start, Enqueue ''second'', Start] emptyQueue)) @
     running (run [Enqueue ''first'', Start, Enqueue ''second'', Start] emptyQueue) @
     pending (run [Enqueue ''first'', Start, Enqueue ''second'', Start] emptyQueue) =
     [''first'', ''second''] \<and>
   run (drain (\<lambda>task. if task = ''first'' then TimedOut else Completed)
          (run [Enqueue ''first'', Start, Enqueue ''second'', Start] emptyQueue))
     (run [Enqueue ''first'', Start, Enqueue ''second'', Start] emptyQueue) =
     \<lparr>pending = [], running = [], busy = False,
      settled = [(''first'', TimedOut), (''second'', Completed)]\<rparr>"
proof -
  let ?q = "run [Enqueue ''first'', Start, Enqueue ''second'', Start] emptyQueue"
  note th = queue_serializes [where events = "[Enqueue ''first'', Start, Enqueue ''second'', Start]"
      and result = "\<lambda>task. if task = ''first'' then TimedOut else Completed"
      and failure = Failed]
  have q: "?q = \<lparr>pending = [''second''], running = [''first''], busy = True, settled = []\<rparr>"
    by (simp add: run_def emptyQueue_def)
  have a: "length (running ?q) \<le> 1"
    using th by (rule conjunct1)
  have b: "map fst (settled ?q) @ running ?q @ pending ?q = [''first'', ''second'']"
    using th [THEN conjunct2, THEN conjunct1] by simp
  have c: "run (drain (\<lambda>task. if task = ''first'' then TimedOut else Completed) ?q) ?q =
      \<lparr>pending = [], running = [], busy = False,
       settled = settled ?q @
         map (\<lambda>task. (task, if task = ''first'' then TimedOut else Completed))
           (running ?q @ pending ?q)\<rparr>"
    using th [THEN conjunct2, THEN conjunct2, THEN conjunct2] .
  have d: "settled ?q @
      map (\<lambda>task. (task, if task = ''first'' then TimedOut else Completed))
        (running ?q @ pending ?q) = [(''first'', TimedOut), (''second'', Completed)]"
    by (simp add: q)
  from a b c d show ?thesis by simp
qed


end
